theory Spec2Isabelle
  imports Main
begin

section \<open>Python values and exceptions\<close>

text \<open>
  The values that reach \<^verbatim>\<open>invoke_async\<close> through untyped positions (\<^verbatim>\<open>**kwargs\<close>, the
  stored model, \<^verbatim>\<open>auxiliary_information\<close>). \<open>POther b\<close> is any object of another type,
  \<open>b\<close> being its truth value.
\<close>

datatype pyval = PNone | PBool bool | PInt int | PStr string | POther bool

fun truthy :: "pyval \<Rightarrow> bool" where
  "truthy PNone = False"
| "truthy (PBool b) = b"
| "truthy (PInt i) = (i \<noteq> 0)"
| "truthy (PStr s) = (s \<noteq> [])"
| "truthy (POther b) = b"

text \<open>\<^verbatim>\<open>isinstance(v, int)\<close>: in Python \<^verbatim>\<open>bool\<close> is a subclass of \<^verbatim>\<open>int\<close>.\<close>

fun isinstance_int :: "pyval \<Rightarrow> bool" where
  "isinstance_int (PInt i) = True"
| "isinstance_int (PBool b) = True"
| "isinstance_int v = False"

fun isinstance_str :: "pyval \<Rightarrow> bool" where
  "isinstance_str (PStr s) = True"
| "isinstance_str v = False"

text \<open>
  Exceptions. \<open>OtherException\<close> is any exception derived from \<^verbatim>\<open>Exception\<close> that a
  collaborator raises (network, provider, parse, validation), \<open>OtherBaseException\<close> one
  derived from \<^verbatim>\<open>BaseException\<close> only (\<^verbatim>\<open>asyncio.CancelledError\<close>,
  \<^verbatim>\<open>KeyboardInterrupt\<close>). \<open>RetryError e\<close> is tenacity's \<^verbatim>\<open>RetryError\<close> holding the last
  attempt, whose exception was \<open>e\<close>.
\<close>

datatype exn =
    ValueError string
  | OtherException nat
  | OtherBaseException nat
  | RetryError exn

fun is_Exception :: "exn \<Rightarrow> bool" where
  "is_Exception (OtherBaseException n) = False"
| "is_Exception e = True"

section \<open>Data of the provider interface and of the result\<close>

datatype json =
    JNull
  | JBool bool
  | JNum int
  | JStr string
  | JArr "json list"
  | JObj "(string \<times> json) list"

record PointCoordinate =
  point_x :: int
  point_y :: int

record ImageAreaSelectChallenge =
  challenge_prompt :: string
  points :: "PointCoordinate list"

record File =
  uri :: string
  mime_type :: string

datatype Part = Part_from_uri string string | Part_from_text string

record Content =
  role :: string
  parts :: "Part list"

record ThinkingConfig =
  include_thoughts :: bool
  thinking_budget :: pyval

record GenerateContentConfig =
  temperature :: int
  system_instruction :: string
  thinking_config :: "ThinkingConfig option"
  response_mime_type :: "string option"
  response_schema :: "string option"

record request =
  req_model :: pyval
  req_contents :: "Content list"
  req_config :: GenerateContentConfig

text \<open>
  The provider's answer: its text (\<^verbatim>\<open>None\<close> when there is none) and the pre-parsed object,
  given by its \<^verbatim>\<open>model_dump()\<close> (an instance of a pydantic model is always true in a
  condition, so \<^verbatim>\<open>if _result := self._response.parsed\<close> tests it against \<^verbatim>\<open>None\<close>).
\<close>

record GenerateContentResponse =
  response_text :: "string option"
  response_parsed :: "json option"

section \<open>The world: provider, trace of effects\<close>

text \<open>
  The effects of a call, in the order in which they happen. An upload has two events:
  \<open>EvUploadStart\<close> when \<^verbatim>\<open>asyncio.gather\<close> makes it a task of the event loop, and
  \<open>EvUploadDone\<close> when the task ends, with the file or the exception.
\<close>

datatype event =
    EvUploadStart string
  | EvUploadDone string "exn + File"
  | EvGenerate request "exn + GenerateContentResponse"
  | EvLogWarning nat exn
  | EvSleep nat

text \<open>
  What \<^verbatim>\<open>asyncio.gather\<close> (without \<^verbatim>\<open>return_exceptions\<close>) sees of two uploads that are in
  flight together, up to the moment it returns or raises. Either both have returned their
  file, in one order or the other (\<open>Both_returned second_first f0 f1\<close>); or one of them is
  the first to raise, and then \<^verbatim>\<open>gather\<close> raises that exception at once: the other upload
  had already returned its file (\<open>Some\<close>), or is still in flight (\<open>None\<close>) and is left
  running, neither awaited nor cancelled, so that its outcome never reaches the attempt.
\<close>

datatype gathered =
    Both_returned bool File File
  | First_raised exn "File option"
  | Second_raised exn "File option"

text \<open>
  The provider is an external collaborator, with a state \<open>'p\<close>. The two uploads of one
  attempt are in flight together, so which of them ends first, and how, is the provider's
  (and the network's) to say, not the program's: \<open>files_upload_gathered\<close> is the course of
  two concurrent \<^verbatim>\<open>client.aio.files.upload\<close> calls as \<^verbatim>\<open>gather\<close> sees it.
  \<open>models_generate_content\<close> is one \<^verbatim>\<open>client.aio.models.generate_content\<close> call, which
  raises or returns.
\<close>

record 'p provider =
  files_upload_gathered :: "string \<Rightarrow> string \<Rightarrow> 'p \<Rightarrow> gathered \<times> 'p"
  models_generate_content :: "request \<Rightarrow> 'p \<Rightarrow> (exn + GenerateContentResponse) \<times> 'p"

record 'p world =
  prov :: 'p
  trace :: "event list"

text \<open>
  The names imported from \<^verbatim>\<open>hcaptcha_challenger.models\<close> and
  \<^verbatim>\<open>hcaptcha_challenger.tools.common\<close>, whose declarations are not part of the module:
  they are parameters. \<open>extract_first_json_block\<close> receives \<^verbatim>\<open>response.text\<close>;
  \<open>ImageAreaSelectChallenge_init\<close> is the validating constructor
  \<^verbatim>\<open>ImageAreaSelectChallenge(**d)\<close>.
\<close>

record deps =
  THINKING_BUDGET_MODELS :: "pyval list"
  extract_first_json_block :: "string option \<Rightarrow> exn + json"
  ImageAreaSelectChallenge_init :: "json \<Rightarrow> exn + ImageAreaSelectChallenge"

text \<open>The attributes of the solver object (\<^verbatim>\<open>self._api_key\<close>, \<^verbatim>\<open>self._model\<close>, ...).\<close>

record SpatialPointReasoner =
  self_api_key :: string
  self_model :: pyval
  self_constraint_response_schema :: bool
  self_response :: "GenerateContentResponse option"

record call_args =
  challenge_screenshot :: string
  grid_divisions :: string
  auxiliary_information :: pyval
  constraint_response_schema :: "bool option"
  kwargs :: "string \<rightharpoonup> pyval"

section \<open>The module\<close>

definition THINKING_PROMPT :: string where
  \<open>THINKING_PROMPT = CHR 0x0A # concat (map (\<lambda>l. l @ [CHR 0x0A])
    [''**Rule for 'Find the Different Object' Tasks:**'',
     '''',
     ''*   **Constraint:** Do **NOT** consider size differences caused by perspective (near/far).'',
     ''*   **Focus:** Identify difference based **only** on object outline, shape, and core structural features.'',
     '''',
     ''**Core Principles for Visual Analysis:**'',
     '''',
     ''*   **Processing Order:** Always analyze **Global Context** before **Local Details**.'',
     ''*   **Perspective:** Maintain awareness of the overall scene ("look outside the immediate focus") when interpreting specific elements.'',
     ''*   **Validation:** Ensure local interpretations are consistent with the global context to avoid settling for potentially incorrect "local optima".'',
     ''*   **Method:** Employ a calm, systematic, top-down (Global-to-Local) analysis workflow.'',
     '''',
     ''**Workflow:**'',
     ''1. Identify challenge prompt about the Challenge Image'',
     ''2. Think about what the challenge requires identification goals, and where are they in the picture'',
     ''3. Based on the plane rectangular coordinate system, reasoning about the absolute position of the "answer object" in the coordinate system'',
     '''',
     ''Finally, solve the challenge, locate the object, output the coordinates of the correct answer as json. Follow the following format to return a coordinates wrapped with a json code block:'',
     '''',
     ''```json'',
     ''{'',
     ''  "challenge_prompt": "Task description",'',
     ''  "points": ['',
     ''    {"x": x1, "y": y1}'',
     ''  ]'',
     ''}'',
     ''```''])\<close>

definition legacy_model :: string where
  "legacy_model = ''gemini-2.0-flash-thinking-exp-01-21''"

definition stop_after_attempt :: nat where
  "stop_after_attempt = 3"

definition wait_fixed :: nat where
  "wait_fixed = 3"

text \<open>\<^verbatim>\<open>kwargs.get(k)\<close> and \<^verbatim>\<open>kwargs.pop("model", self._model)\<close>.\<close>

definition kwargs_get :: "(string \<rightharpoonup> pyval) \<Rightarrow> string \<Rightarrow> pyval" where
  "kwargs_get kw k = (case kw k of None \<Rightarrow> PNone | Some v \<Rightarrow> v)"

definition resolve_model :: "SpatialPointReasoner \<Rightarrow> (string \<rightharpoonup> pyval) \<Rightarrow> pyval" where
  "resolve_model self kw = (case kw ''model'' of None \<Rightarrow> self_model self | Some v \<Rightarrow> v)"

text \<open>Lines 81 to 86: the flag that decides the decoding mode.\<close>

definition resolve_constraint ::
  "SpatialPointReasoner \<Rightarrow> bool option \<Rightarrow> (string \<rightharpoonup> pyval) \<Rightarrow> pyval" where
  "resolve_constraint self crs kw =
     (let c = (case crs of
                 None \<Rightarrow> PBool (self_constraint_response_schema self)
               | Some b \<Rightarrow> PBool b);
          enable_response_schema = kwargs_get kw ''enable_response_schema''
      in if enable_response_schema \<noteq> PNone then enable_response_schema else c)"

text \<open>Lines 103 to 108: the parts of the single user turn.\<close>

definition build_parts :: "File \<Rightarrow> File \<Rightarrow> pyval \<Rightarrow> Part list" where
  "build_parts f0 f1 aux =
     [Part_from_uri (uri f0) (mime_type f0), Part_from_uri (uri f1) (mime_type f1)] @
     (if truthy aux \<and> isinstance_str aux
      then (case aux of PStr s \<Rightarrow> [Part_from_text s] | _ \<Rightarrow> [])
      else [])"

text \<open>Lines 112 to 119: the request configuration before the decoding mode is chosen.\<close>

definition build_config :: "deps \<Rightarrow> pyval \<Rightarrow> (string \<rightharpoonup> pyval) \<Rightarrow> GenerateContentConfig" where
  "build_config D model_to_use kw =
     (let config = \<lparr>temperature = 0, system_instruction = THINKING_PROMPT,
                     thinking_config = None, response_mime_type = None,
                     response_schema = None\<rparr>;
          tb = kwargs_get kw ''thinking_budget''
      in if model_to_use \<in> set (THINKING_BUDGET_MODELS D) \<and> isinstance_int tb
         then config\<lparr>thinking_config := Some \<lparr>include_thoughts = True, thinking_budget = tb\<rparr>\<rparr>
         else config)"

text \<open>
  Lines 92 to 95, \<^verbatim>\<open>files = await asyncio.gather(upload(challenge_screenshot),
  upload(grid_divisions))\<close>. \<^verbatim>\<open>gather\<close> makes both uploads tasks of the event loop, in the
  order of its arguments, before either of them runs; the tasks then end in an order that
  the program does not fix. The value of \<^verbatim>\<open>gather\<close> is the pair of files in the order of the
  arguments, whichever came first; the first exception of either task is raised at once,
  without waiting for the other task.
\<close>

fun gathered_result :: "gathered \<Rightarrow> exn + File \<times> File" where
  "gathered_result (Both_returned second_first f0 f1) = Inr (f0, f1)"
| "gathered_result (First_raised e other) = Inl e"
| "gathered_result (Second_raised e other) = Inl e"

fun gathered_events :: "string \<Rightarrow> string \<Rightarrow> gathered \<Rightarrow> event list" where
  "gathered_events a b (Both_returned second_first f0 f1) =
     [EvUploadStart a, EvUploadStart b] @
     (if second_first then [EvUploadDone b (Inr f1), EvUploadDone a (Inr f0)]
      else [EvUploadDone a (Inr f0), EvUploadDone b (Inr f1)])"
| "gathered_events a b (First_raised e other) =
     [EvUploadStart a, EvUploadStart b] @
     (case other of None \<Rightarrow> [] | Some f1 \<Rightarrow> [EvUploadDone b (Inr f1)]) @
     [EvUploadDone a (Inl e)]"
| "gathered_events a b (Second_raised e other) =
     [EvUploadStart a, EvUploadStart b] @
     (case other of None \<Rightarrow> [] | Some f0 \<Rightarrow> [EvUploadDone a (Inr f0)]) @
     [EvUploadDone b (Inl e)]"

definition gather_uploads ::
  "'p provider \<Rightarrow> string \<Rightarrow> string \<Rightarrow> 'p world \<Rightarrow> (exn + File \<times> File) \<times> 'p world" where
  "gather_uploads P a b w =
     (let (g, p') = files_upload_gathered P a b (prov w)
      in (gathered_result g, w\<lparr>prov := p', trace := trace w @ gathered_events a b g\<rparr>))"

text \<open>
  \<^verbatim>\<open>self._response = await client.aio.models.generate_content(...)\<close>: the attribute is
  assigned when the call returns, and left as it was when the call raises.
\<close>

definition call_generate ::
  "'p provider \<Rightarrow> request \<Rightarrow> SpatialPointReasoner \<times> 'p world \<Rightarrow>
     (exn + GenerateContentResponse) \<times> SpatialPointReasoner \<times> 'p world" where
  "call_generate P req s =
     (case s of (self, w) \<Rightarrow>
        (let (r, p') = models_generate_content P req (prov w);
             w' = w\<lparr>prov := p', trace := trace w @ [EvGenerate req r]\<rparr>
         in case r of
              Inl e \<Rightarrow> (Inl e, self, w')
            | Inr resp \<Rightarrow> (Inr resp, self\<lparr>self_response := Some resp\<rparr>, w')))"

text \<open>\<^verbatim>\<open>ImageAreaSelectChallenge(**extract_first_json_block(self._response.text))\<close>\<close>

definition parse_text :: "deps \<Rightarrow> GenerateContentResponse \<Rightarrow> exn + ImageAreaSelectChallenge" where
  "parse_text D resp =
     (case extract_first_json_block D (response_text resp) of
        Inl e \<Rightarrow> Inl e
      | Inr d \<Rightarrow> ImageAreaSelectChallenge_init D d)"

text \<open>
  The body of \<^verbatim>\<open>invoke_async\<close>, lines 77 to 139: one attempt. Building the client from
  the key (line 89) makes no call to the provider and is left out; \<^verbatim>\<open>kwargs\<close> is a fresh
  dictionary in every attempt, so that \<^verbatim>\<open>pop\<close> does not reach the next one.
\<close>

definition invoke_async_body ::
  "deps \<Rightarrow> 'p provider \<Rightarrow> call_args \<Rightarrow> SpatialPointReasoner \<times> 'p world \<Rightarrow>
     (exn + ImageAreaSelectChallenge) \<times> SpatialPointReasoner \<times> 'p world" where
  "invoke_async_body D P a s =
     (case s of (self, w) \<Rightarrow>
        (let model_to_use = resolve_model self (kwargs a) in
         if model_to_use = PNone
         then (Inl (ValueError ''Model must be provided either at initialization or via kwargs.''),
               self, w)
         else
           (let crs = resolve_constraint self (constraint_response_schema a) (kwargs a);
                (files, w1) = gather_uploads P (challenge_screenshot a) (grid_divisions a) w
            in case files of
                 Inl e \<Rightarrow> (Inl e, self, w1)
               | Inr (f0, f1) \<Rightarrow>
                   (let contents = [\<lparr>role = ''user'',
                                      parts = build_parts f0 f1 (auxiliary_information a)\<rparr>];
                        config = build_config D model_to_use (kwargs a)
                    in if \<not> truthy crs \<or> model_to_use \<in> set [PStr legacy_model]
                       then
                         (case call_generate P
                                 \<lparr>req_model = model_to_use, req_contents = contents,
                                  req_config = config\<rparr> (self, w1) of
                            (Inl e, s') \<Rightarrow> (Inl e, s')
                          | (Inr resp, s') \<Rightarrow> (parse_text D resp, s'))
                       else
                         (case call_generate P
                                 \<lparr>req_model = model_to_use, req_contents = contents,
                                  req_config = config\<lparr>response_mime_type := Some ''application/json'',
                                                      response_schema := Some ''ImageAreaSelectChallenge''\<rparr>\<rparr>
                                 (self, w1) of
                            (Inl e, s') \<Rightarrow> (Inl e, s')
                          | (Inr resp, s') \<Rightarrow>
                              (case response_parsed resp of
                                 Some d \<Rightarrow> (ImageAreaSelectChallenge_init D d, s')
                               | None \<Rightarrow> (parse_text D resp, s')))))))"

text \<open>
  The decorator of lines 61 to 67, \<^verbatim>\<open>@retry(stop=stop_after_attempt(3), wait=wait_fixed(3),
  before_sleep=...)\<close>, with tenacity's defaults for what is not given: every exception
  derived from \<^verbatim>\<open>Exception\<close> is retried, another one is raised again as it is, and
  (\<^verbatim>\<open>reraise=False\<close>) after the last attempt a \<^verbatim>\<open>RetryError\<close> is raised from the last
  exception. \<open>EvLogWarning n e\<close> is the warning
  \<^verbatim>\<open>Retry request (n/2) - Wait 3 seconds - Exception: e\<close>.
\<close>

function tenacity_retry ::
  "(SpatialPointReasoner \<times> 'p world \<Rightarrow> (exn + 'a) \<times> SpatialPointReasoner \<times> 'p world) \<Rightarrow>
     nat \<Rightarrow> SpatialPointReasoner \<times> 'p world \<Rightarrow> (exn + 'a) \<times> SpatialPointReasoner \<times> 'p world" where
  "tenacity_retry fn attempt_number s =
     (case fn s of
        (Inr v, s') \<Rightarrow> (Inr v, s')
      | (Inl e, self, w) \<Rightarrow>
          if \<not> is_Exception e then (Inl e, self, w)
          else if attempt_number \<ge> stop_after_attempt then (Inl (RetryError e), self, w)
          else tenacity_retry fn (attempt_number + 1)
                 (self, w\<lparr>trace := trace w @ [EvLogWarning attempt_number e, EvSleep wait_fixed]\<rparr>))"
  by pat_completeness auto
termination
  by (relation "measure (\<lambda>(fn, n, s). stop_after_attempt - n)") auto

declare tenacity_retry.simps [simp del]

definition invoke_async ::
  "deps \<Rightarrow> 'p provider \<Rightarrow> call_args \<Rightarrow> SpatialPointReasoner \<times> 'p world \<Rightarrow>
     (exn + ImageAreaSelectChallenge) \<times> SpatialPointReasoner \<times> 'p world" where
  "invoke_async D P a s = tenacity_retry (invoke_async_body D P a) 1 s"

section \<open>Reading a trace\<close>

text \<open>The requests of the inference calls of a trace, and the responses of those that returned.\<close>

fun requests :: "event list \<Rightarrow> request list" where
  "requests [] = []"
| "requests (EvGenerate q r # evs) = q # requests evs"
| "requests (ev # evs) = requests evs"

fun responses :: "event list \<Rightarrow> GenerateContentResponse list" where
  "responses [] = []"
| "responses (EvGenerate q (Inr resp) # evs) = resp # responses evs"
| "responses (ev # evs) = responses evs"

text \<open>
  The condition of line 122, the request that an attempt sends once both files are there,
  and how it decodes the response: the two branches of lines 122 to 139 read side by side.
\<close>

definition free_text_mode :: "SpatialPointReasoner \<Rightarrow> call_args \<Rightarrow> bool" where
  "free_text_mode self a =
     (\<not> truthy (resolve_constraint self (constraint_response_schema a) (kwargs a)) \<or>
      resolve_model self (kwargs a) \<in> set [PStr legacy_model])"

definition request_of :: "deps \<Rightarrow> SpatialPointReasoner \<Rightarrow> call_args \<Rightarrow> File \<Rightarrow> File \<Rightarrow> request" where
  "request_of D self a f0 f1 =
     (let config = build_config D (resolve_model self (kwargs a)) (kwargs a)
      in \<lparr>req_model = resolve_model self (kwargs a),
          req_contents = [\<lparr>role = ''user'',
                            parts = build_parts f0 f1 (auxiliary_information a)\<rparr>],
          req_config = (if free_text_mode self a then config
                        else config\<lparr>response_mime_type := Some ''application/json'',
                                    response_schema := Some ''ImageAreaSelectChallenge''\<rparr>)\<rparr>)"

definition decode ::
  "deps \<Rightarrow> SpatialPointReasoner \<Rightarrow> call_args \<Rightarrow> GenerateContentResponse \<Rightarrow>
     exn + ImageAreaSelectChallenge" where
  "decode D self a resp =
     (if free_text_mode self a then parse_text D resp
      else (case response_parsed resp of
              Some d \<Rightarrow> ImageAreaSelectChallenge_init D d
            | None \<Rightarrow> parse_text D resp))"

text \<open>
  What the attempts of one call keep true: the configuration of the solver, the form of
  every request sent so far, and the response the solver holds; and what a returned result
  is.
\<close>

definition same_config :: "SpatialPointReasoner \<Rightarrow> SpatialPointReasoner \<Rightarrow> bool" where
  "same_config self self' =
     (self_api_key self' = self_api_key self \<and> self_model self' = self_model self \<and>
      self_constraint_response_schema self' = self_constraint_response_schema self)"

definition attempts_inv ::
  "deps \<Rightarrow> call_args \<Rightarrow> SpatialPointReasoner \<Rightarrow> 'p world \<Rightarrow>
     SpatialPointReasoner \<times> 'p world \<Rightarrow> bool" where
  "attempts_inv D a self w s =
     (case s of (self1, w1) \<Rightarrow>
        same_config self self1 \<and>
        (\<exists>evs. trace w1 = trace w @ evs \<and>
           (\<forall>q \<in> set (requests evs). \<exists>f0 f1. q = request_of D self a f0 f1) \<and>
           self_response self1 =
             (if responses evs = [] then self_response self else Some (last (responses evs)))))"

definition attempts_post ::
  "deps \<Rightarrow> call_args \<Rightarrow> SpatialPointReasoner \<Rightarrow> 'p world \<Rightarrow>
     exn + ImageAreaSelectChallenge \<Rightarrow> SpatialPointReasoner \<times> 'p world \<Rightarrow> bool" where
  "attempts_post D a self w r s =
     (\<forall>c. r = Inr c \<longrightarrow>
        (\<exists>evs. trace (snd s) = trace w @ evs \<and> responses evs \<noteq> [] \<and>
           decode D self a (last (responses evs)) = Inr c))"

section \<open>A provider stub and a result type for the examples\<close>

text \<open>
  A scripted provider: its state counts the calls made so far (an attempt's pair of
  uploads counts for two), and what the script gives for that count is the course of the
  two uploads, or the outcome of the inference call.
\<close>

definition stub_provider ::
  "(nat \<Rightarrow> gathered) \<Rightarrow> (nat \<Rightarrow> exn + GenerateContentResponse) \<Rightarrow> nat provider" where
  "stub_provider ups gens =
     \<lparr>files_upload_gathered = (\<lambda>a b n. (ups n, n + 2)),
      models_generate_content = (\<lambda>req n. (gens n, Suc n))\<rparr>"

definition png :: "string \<Rightarrow> File" where
  "png u = \<lparr>uri = u, mime_type = ''image/png''\<rparr>"

text \<open>
  Modelled from the spec: the declaration of \<^verbatim>\<open>ImageAreaSelectChallenge\<close> (in
  \<^verbatim>\<open>hcaptcha_challenger.models\<close>) is missing. This constructor follows section 3 of the
  spec: it accepts the shape given there for the result, \<^verbatim>\<open>{ challenge_prompt: string,
  points: ordered sequence of {x: number, y: number} }\<close>, keeps the invariant stated there,
  \<^verbatim>\<open>points is non-empty on success\<close>, and raises on anything else.
\<close>

fun json_point :: "json \<Rightarrow> PointCoordinate option" where
  "json_point (JObj kv) =
     (case map_of kv ''x'' of
        Some (JNum vx) \<Rightarrow>
          (case map_of kv ''y'' of
             Some (JNum vy) \<Rightarrow> Some \<lparr>point_x = vx, point_y = vy\<rparr>
           | _ \<Rightarrow> None)
      | _ \<Rightarrow> None)"
| "json_point j = None"

definition shape_init :: "json \<Rightarrow> exn + ImageAreaSelectChallenge" where
  "shape_init d =
     (case d of
        JObj kv \<Rightarrow>
          (case map_of kv ''challenge_prompt'' of
             Some (JStr s) \<Rightarrow>
               (case map_of kv ''points'' of
                  Some (JArr ps) \<Rightarrow>
                    (case those (map json_point ps) of
                       Some pts \<Rightarrow>
                         if pts = [] then Inl (OtherException 1)
                         else Inr \<lparr>challenge_prompt = s, points = pts\<rparr>
                     | None \<Rightarrow> Inl (OtherException 1))
                | _ \<Rightarrow> Inl (OtherException 1))
           | _ \<Rightarrow> Inl (OtherException 1))
      | _ \<Rightarrow> Inl (OtherException 1))"

text \<open>
  The dependencies of the examples: two budget-capable models, an extraction that finds
  the object \<open>answer\<close> in the text \<open>answer_text\<close> and no block in any other text, and the
  constructor above.
\<close>

definition answer :: json where
  "answer = JObj [(''challenge_prompt'', JStr ''x''),
                  (''points'', JArr [JObj [(''x'', JNum 12), (''y'', JNum 34)]])]"

definition answer_text :: string where
  \<open>answer_text = ''Here it is: {"challenge_prompt":"x","points":[{"x":12,"y":34}]} Done.''\<close>

definition stub_deps :: deps where
  "stub_deps =
     \<lparr>THINKING_BUDGET_MODELS = [PStr ''gemini-2.5-flash'', PStr ''gemini-2.5-pro''],
      extract_first_json_block =
        (\<lambda>t. if t = Some answer_text then Inr answer else Inl (OtherException 2)),
      ImageAreaSelectChallenge_init = shape_init\<rparr>"

definition stub_self :: "pyval \<Rightarrow> bool \<Rightarrow> SpatialPointReasoner" where
  "stub_self m c =
     \<lparr>self_api_key = ''key'', self_model = m, self_constraint_response_schema = c,
      self_response = None\<rparr>"

definition stub_args :: "pyval \<Rightarrow> bool option \<Rightarrow> (string \<rightharpoonup> pyval) \<Rightarrow> call_args" where
  "stub_args aux crs kw =
     \<lparr>challenge_screenshot = ''challenge.png'', grid_divisions = ''grid.png'',
      auxiliary_information = aux, constraint_response_schema = crs, kwargs = kw\<rparr>"

definition world0 :: "nat world" where
  "world0 = \<lparr>prov = 0, trace = []\<rparr>"

text \<open>
  Scripts of the provider: one that accepts both files, the challenge image first, and
  answers with a pre-parsed object; one that answers with text only; one where the upload
  of the grid image returns before that of the challenge image; and one that is down (the
  upload of the challenge image raises while the other is in flight, and every inference
  call raises).
\<close>

definition empty_answer :: json where
  "empty_answer = JObj [(''challenge_prompt'', JStr ''x''), (''points'', JArr [])]"

definition stub_answering :: "json \<Rightarrow> nat provider" where
  "stub_answering d =
     stub_provider (\<lambda>n. Both_returned False (png ''files/a'') (png ''files/b''))
       (\<lambda>n. Inr \<lparr>response_text = None, response_parsed = Some d\<rparr>)"

definition stub_texting :: "nat provider" where
  "stub_texting =
     stub_provider (\<lambda>n. Both_returned False (png ''files/a'') (png ''files/b''))
       (\<lambda>n. Inr \<lparr>response_text = Some answer_text, response_parsed = None\<rparr>)"

definition stub_grid_first :: "nat provider" where
  "stub_grid_first =
     stub_provider (\<lambda>n. Both_returned True (png ''files/a'') (png ''files/b''))
       (\<lambda>n. Inr \<lparr>response_text = None, response_parsed = Some answer\<rparr>)"

definition stub_down :: "nat provider" where
  "stub_down =
     stub_provider (\<lambda>n. First_raised (OtherException 7) None) (\<lambda>n. Inl (OtherException 7))"

text \<open>
  The calls of the examples, all on a solver built with the model \<^verbatim>\<open>gemini-2.5-pro\<close> and
  schema-constrained output, unless said otherwise: with a hint as auxiliary text; with a
  thinking budget; with the legacy model passed in the call; on a provider that is down;
  on a solver without a model; with a provider whose answer has no point; with the text of
  \<open>THINKING_PROMPT\<close> passed as auxiliary text; and one attempt on the provider whose
  uploads end in the other order.
\<close>

definition run_hint ::
  "(exn + ImageAreaSelectChallenge) \<times> SpatialPointReasoner \<times> nat world" where
  "run_hint =
     invoke_async stub_deps (stub_answering answer) (stub_args (PStr ''hint'') None Map.empty)
       (stub_self (PStr ''gemini-2.5-pro'') True, world0)"

definition run_budget ::
  "(exn + ImageAreaSelectChallenge) \<times> SpatialPointReasoner \<times> nat world" where
  "run_budget =
     invoke_async stub_deps (stub_answering answer)
       (stub_args (PStr []) None [''thinking_budget'' \<mapsto> PInt 1024])
       (stub_self (PStr ''gemini-2.5-pro'') True, world0)"

definition run_legacy ::
  "(exn + ImageAreaSelectChallenge) \<times> SpatialPointReasoner \<times> nat world" where
  "run_legacy =
     invoke_async stub_deps stub_texting
       (stub_args (PStr []) (Some True) [''model'' \<mapsto> PStr legacy_model])
       (stub_self (PStr ''gemini-2.5-pro'') True, world0)"

definition run_down ::
  "(exn + ImageAreaSelectChallenge) \<times> SpatialPointReasoner \<times> nat world" where
  "run_down =
     invoke_async stub_deps stub_down (stub_args (PStr []) None Map.empty)
       (stub_self (PStr ''gemini-2.5-pro'') True, world0)"

definition run_no_model ::
  "(exn + ImageAreaSelectChallenge) \<times> SpatialPointReasoner \<times> nat world" where
  "run_no_model =
     invoke_async stub_deps (stub_answering answer) (stub_args (PStr []) None Map.empty)
       (stub_self PNone True, world0)"


definition run_prompt_as_hint ::
  "(exn + ImageAreaSelectChallenge) \<times> SpatialPointReasoner \<times> nat world" where
  "run_prompt_as_hint =
     invoke_async stub_deps (stub_answering answer)
       (stub_args (PStr THINKING_PROMPT) None Map.empty)
       (stub_self (PStr ''gemini-2.5-pro'') True, world0)"

definition attempt_grid_first ::
  "(exn + ImageAreaSelectChallenge) \<times> SpatialPointReasoner \<times> nat world" where
  "attempt_grid_first =
     invoke_async_body stub_deps stub_grid_first (stub_args (PStr []) None Map.empty)
       (stub_self (PStr ''gemini-2.5-pro'') True, world0)"

text \<open>
  The response of the first example, its request, and the request of a call without
  auxiliary text.
\<close>

definition parsed_response :: "json \<Rightarrow> GenerateContentResponse" where
  "parsed_response d = \<lparr>response_text = None, response_parsed = Some d\<rparr>"

definition hint_request :: request where
  "hint_request =
     \<lparr>req_model = PStr ''gemini-2.5-pro'',
      req_contents =
        [\<lparr>role = ''user'',
          parts = [Part_from_uri ''files/a'' ''image/png'', Part_from_uri ''files/b'' ''image/png'',
                   Part_from_text ''hint'']\<rparr>],
      req_config =
        \<lparr>temperature = 0, system_instruction = THINKING_PROMPT, thinking_config = None,
         response_mime_type = Some ''application/json'',
         response_schema = Some ''ImageAreaSelectChallenge''\<rparr>\<rparr>"

definition plain_request :: request where
  "plain_request =
     \<lparr>req_model = PStr ''gemini-2.5-pro'',
      req_contents =
        [\<lparr>role = ''user'',
          parts = [Part_from_uri ''files/a'' ''image/png'', Part_from_uri ''files/b'' ''image/png'']\<rparr>],
      req_config =
        \<lparr>temperature = 0, system_instruction = THINKING_PROMPT, thinking_config = None,
         response_mime_type = Some ''application/json'',
         response_schema = Some ''ImageAreaSelectChallenge''\<rparr>\<rparr>"

section \<open>The retry envelope: an invariant rule\<close>

lemma retry_invariant:
  assumes step: "\<And>s r s'. fn s = (r, s') \<Longrightarrow> Inv s \<Longrightarrow> Inv s' \<and> Post r s'"
    and logs: "\<And>self w n e. Inv (self, w) \<Longrightarrow>
                 Inv (self, w\<lparr>trace := trace w @ [EvLogWarning n e, EvSleep wait_fixed]\<rparr>)"
    and wrap: "\<And>e s. Post (Inl e) s \<Longrightarrow> Post (Inl (RetryError e)) s"
    and "Inv s" and "tenacity_retry fn n s = (r, s')"
  shows "Inv s' \<and> Post r s'"
  using assms
proof (induction fn n s rule: tenacity_retry.induct)
  case (1 fn n s)
  note step = "1.prems"(1) and logs = "1.prems"(2) and wrap = "1.prems"(3)
  obtain r1 self1 w1 where f: "fn s = (r1, self1, w1)" by (cases "fn s") auto
  from step [OF f "1.prems"(4)] have i1: "Inv (self1, w1)" and p1: "Post r1 (self1, w1)" by auto
  show ?case
  proof (cases r1)
    case (Inr v)
    with f "1.prems"(5) i1 p1 show ?thesis by (simp add: tenacity_retry.simps)
  next
    case (Inl e)
    show ?thesis
    proof (cases "\<not> is_Exception e \<or> n \<ge> stop_after_attempt")
      case True
      with Inl f "1.prems"(5) i1 p1 wrap show ?thesis
        by (auto simp add: tenacity_retry.simps split: if_splits)
    next
      case False
      with Inl f "1.prems"(5) have
        "tenacity_retry fn (n + 1) (self1, w1\<lparr>trace := trace w1 @ [EvLogWarning n e, EvSleep wait_fixed]\<rparr>) = (r, s')"
        by (simp add: tenacity_retry.simps)
      with "1.IH" [OF f [symmetric] _ _ _ _ step logs wrap logs [OF i1]] Inl False show ?thesis by auto
    qed
  qed
qed

lemma tenacity_retry_returns:
  "fn s = (Inr v, s') \<Longrightarrow> tenacity_retry fn n s = (Inr v, s')"
  by (subst tenacity_retry.simps) simp

lemma tenacity_retry_not_Exception:
  "fn s = (Inl e, self, w) \<Longrightarrow> \<not> is_Exception e \<Longrightarrow> tenacity_retry fn n s = (Inl e, self, w)"
  by (subst tenacity_retry.simps) simp

lemma tenacity_retry_stop:
  "fn s = (Inl e, self, w) \<Longrightarrow> is_Exception e \<Longrightarrow> stop_after_attempt \<le> n \<Longrightarrow>
   tenacity_retry fn n s = (Inl (RetryError e), self, w)"
  by (subst tenacity_retry.simps) simp

lemma tenacity_retry_again:
  "fn s = (Inl e, self, w) \<Longrightarrow> is_Exception e \<Longrightarrow> n < stop_after_attempt \<Longrightarrow>
   tenacity_retry fn n s =
     tenacity_retry fn (n + 1)
       (self, w\<lparr>trace := trace w @ [EvLogWarning n e, EvSleep wait_fixed]\<rparr>)"
  by (subst tenacity_retry.simps) simp

text \<open>The definitions that evaluate a call on the stubs.\<close>

lemma tenacity_retry_3:
  "tenacity_retry fn 3 s =
     (case fn s of
        (Inr v, s') \<Rightarrow> (Inr v, s')
      | (Inl e, self, w) \<Rightarrow>
          if \<not> is_Exception e then (Inl e, self, w) else (Inl (RetryError e), self, w))"
proof -
  have le: "stop_after_attempt \<le> (3::nat)" by (simp add: stop_after_attempt_def)
  show ?thesis by (subst tenacity_retry.simps) (simp only: le if_True)
qed

lemma tenacity_retry_2:
  "tenacity_retry fn 2 s =
     (case fn s of
        (Inr v, s') \<Rightarrow> (Inr v, s')
      | (Inl e, self, w) \<Rightarrow>
          if \<not> is_Exception e then (Inl e, self, w)
          else tenacity_retry fn 3 (self, w\<lparr>trace := trace w @ [EvLogWarning 2 e, EvSleep 3]\<rparr>))"
proof -
  have le: "(stop_after_attempt \<le> (2::nat)) = False" by (simp add: stop_after_attempt_def)
  have s: "(2::nat) + 1 = 3" by simp
  show ?thesis by (subst tenacity_retry.simps) (simp only: le s if_False wait_fixed_def)
qed

lemma tenacity_retry_1:
  "tenacity_retry fn 1 s =
     (case fn s of
        (Inr v, s') \<Rightarrow> (Inr v, s')
      | (Inl e, self, w) \<Rightarrow>
          if \<not> is_Exception e then (Inl e, self, w)
          else tenacity_retry fn 2 (self, w\<lparr>trace := trace w @ [EvLogWarning 1 e, EvSleep 3]\<rparr>))"
proof -
  have le: "(stop_after_attempt \<le> (1::nat)) = False" by (simp add: stop_after_attempt_def)
  have s: "(1::nat) + 1 = 2" by simp
  show ?thesis by (subst tenacity_retry.simps) (simp only: le s if_False wait_fixed_def)
qed

lemma tenacity_retry_unrolled:
  "tenacity_retry fn 1 s =
     (case fn s of
        (Inr v, s1) \<Rightarrow> (Inr v, s1)
      | (Inl e1, self1, w1) \<Rightarrow>
          if \<not> is_Exception e1 then (Inl e1, self1, w1)
          else
            (case fn (self1, w1\<lparr>trace := trace w1 @ [EvLogWarning 1 e1, EvSleep 3]\<rparr>) of
               (Inr v, s2) \<Rightarrow> (Inr v, s2)
             | (Inl e2, self2, w2) \<Rightarrow>
                 if \<not> is_Exception e2 then (Inl e2, self2, w2)
                 else
                   (case fn (self2, w2\<lparr>trace := trace w2 @ [EvLogWarning 2 e2, EvSleep 3]\<rparr>) of
                      (Inr v, s3) \<Rightarrow> (Inr v, s3)
                    | (Inl e3, self3, w3) \<Rightarrow>
                        if \<not> is_Exception e3 then (Inl e3, self3, w3)
                        else (Inl (RetryError e3), self3, w3))))"
  by (simp only: tenacity_retry_1 tenacity_retry_2 tenacity_retry_3)

lemma invoke_async_first_attempt:
  assumes "\<not> isl (fst (invoke_async_body D P a s))"
  shows "invoke_async D P a s = invoke_async_body D P a s"
proof -
  obtain r s' where b: "invoke_async_body D P a s = (r, s')"
    by (cases "invoke_async_body D P a s") auto
  with assms obtain c where "r = Inr c" by (cases r) auto
  with b show ?thesis by (simp add: invoke_async_def tenacity_retry_returns)
qed

lemmas run_defs =
  invoke_async_body_def stub_deps_def stub_answering_def stub_texting_def stub_down_def
  stub_grid_first_def stub_provider_def
  stub_args_def stub_self_def world0_def resolve_model_def resolve_constraint_def
  kwargs_get_def gather_uploads_def call_generate_def Let_def build_parts_def build_config_def
  legacy_model_def png_def answer_def answer_text_def empty_answer_def shape_init_def
  parse_text_def

section \<open>One attempt: its outcomes\<close>

lemma body_no_model:
  "resolve_model self (kwargs a) = PNone \<Longrightarrow>
   invoke_async_body D P a (self, w) =
     (Inl (ValueError ''Model must be provided either at initialization or via kwargs.''), self, w)"
  by (simp add: invoke_async_body_def)

lemma requests_gathered [simp]: "requests (gathered_events a b g) = []"
  by (cases g) (auto split: option.splits)

lemma responses_gathered [simp]: "responses (gathered_events a b g) = []"
  by (cases g) (auto split: option.splits)

lemma gathered_result_Inr:
  "gathered_result g = Inr (f0, f1) \<Longrightarrow> \<exists>second_first. g = Both_returned second_first f0 f1"
  by (cases g) auto

lemma gathered_result_Inl:
  "gathered_result g = Inl e \<Longrightarrow>
   (\<exists>other. g = First_raised e other) \<or> (\<exists>other. g = Second_raised e other)"
  by (cases g) auto

lemma gather_uploads_cases:
  assumes "gather_uploads P x y w = (fr, w1)"
  shows "\<exists>g. trace w1 = trace w @ gathered_events x y g \<and> fr = gathered_result g"
  using assms by (auto simp: gather_uploads_def Let_def split: prod.splits)

lemma body_upload_failed:
  assumes "resolve_model self (kwargs a) \<noteq> PNone"
    and "gather_uploads P (challenge_screenshot a) (grid_divisions a) w = (Inl e, w1)"
  shows "invoke_async_body D P a (self, w) = (Inl e, self, w1)"
  using assms by (simp add: invoke_async_body_def Let_def)

lemma body_uploaded:
  assumes "resolve_model self (kwargs a) \<noteq> PNone"
    and "gather_uploads P (challenge_screenshot a) (grid_divisions a) w = (Inr (f0, f1), w1)"
    and "models_generate_content P (request_of D self a f0 f1) (prov w1) = (gr, p')"
  shows "invoke_async_body D P a (self, w) =
           (case gr of
              Inl e \<Rightarrow> (Inl e, self,
                        w1\<lparr>prov := p', trace := trace w1 @ [EvGenerate (request_of D self a f0 f1) gr]\<rparr>)
            | Inr resp \<Rightarrow> (decode D self a resp, self\<lparr>self_response := Some resp\<rparr>,
                        w1\<lparr>prov := p', trace := trace w1 @ [EvGenerate (request_of D self a f0 f1) gr]\<rparr>))"
proof (cases "free_text_mode self a")
  case True
  with assms show ?thesis
    by (cases gr)
       (simp_all add: invoke_async_body_def Let_def call_generate_def request_of_def
          decode_def free_text_mode_def)
next
  case False
  with assms show ?thesis
    by (cases gr)
       (simp_all add: invoke_async_body_def Let_def call_generate_def request_of_def
          decode_def free_text_mode_def split: option.splits)
qed

lemma body_cases:
  assumes "invoke_async_body D P a (self, w) = (r, self', w')"
  shows "(resolve_model self (kwargs a) = PNone \<and> self' = self \<and> w' = w \<and>
          r = Inl (ValueError ''Model must be provided either at initialization or via kwargs.'')) \<or>
         (resolve_model self (kwargs a) \<noteq> PNone \<and> self' = self \<and>
          (\<exists>g e. trace w' = trace w @ gathered_events (challenge_screenshot a) (grid_divisions a) g \<and>
             gathered_result g = Inl e \<and> r = Inl e)) \<or>
         (resolve_model self (kwargs a) \<noteq> PNone \<and> self' = self \<and>
          (\<exists>g f0 f1 e. trace w' = trace w @
                           gathered_events (challenge_screenshot a) (grid_divisions a) g @
                           [EvGenerate (request_of D self a f0 f1) (Inl e)] \<and>
             gathered_result g = Inr (f0, f1) \<and> r = Inl e)) \<or>
         (resolve_model self (kwargs a) \<noteq> PNone \<and>
          (\<exists>g f0 f1 resp. trace w' = trace w @
                           gathered_events (challenge_screenshot a) (grid_divisions a) g @
                           [EvGenerate (request_of D self a f0 f1) (Inr resp)] \<and>
             gathered_result g = Inr (f0, f1) \<and>
             self' = self\<lparr>self_response := Some resp\<rparr> \<and> r = decode D self a resp))"
proof (cases "resolve_model self (kwargs a) = PNone")
  case True
  with assms show ?thesis by (simp add: body_no_model)
next
  case False
  obtain fr w1 where g: "gather_uploads P (challenge_screenshot a) (grid_divisions a) w = (fr, w1)"
    by (cases "gather_uploads P (challenge_screenshot a) (grid_divisions a) w") auto
  from gather_uploads_cases [OF g] obtain gd where
    t1: "trace w1 = trace w @ gathered_events (challenge_screenshot a) (grid_divisions a) gd"
    and c1: "fr = gathered_result gd"
    by blast
  show ?thesis
  proof (cases fr)
    case (Inl e)
    with g have g0: "gather_uploads P (challenge_screenshot a) (grid_divisions a) w = (Inl e, w1)"
      by simp
    from assms body_upload_failed [OF False g0, of D]
    have "r = Inl e" "self' = self" "w' = w1" by simp_all
    with False t1 c1 Inl show ?thesis by auto
  next
    case (Inr ff)
    obtain f0 f1 where ff: "ff = (f0, f1)" by (cases ff) auto
    obtain gr p' where m: "models_generate_content P (request_of D self a f0 f1) (prov w1) = (gr, p')"
      by (cases "models_generate_content P (request_of D self a f0 f1) (prov w1)") auto
    from Inr ff c1 have r01: "gathered_result gd = Inr (f0, f1)" by simp
    from g Inr ff have g': "gather_uploads P (challenge_screenshot a) (grid_divisions a) w = (Inr (f0, f1), w1)"
      by simp
    note eq = body_uploaded [OF False g' m]
    show ?thesis
    proof (cases gr)
      case (Inl e)
      with eq assms have "r = Inl e" "self' = self"
        "w' = w1\<lparr>prov := p', trace := trace w1 @ [EvGenerate (request_of D self a f0 f1) gr]\<rparr>"
        by simp_all
      with False t1 r01 Inl show ?thesis by auto
    next
      case (Inr resp)
      with eq assms have "r = decode D self a resp" "self' = self\<lparr>self_response := Some resp\<rparr>"
        "w' = w1\<lparr>prov := p', trace := trace w1 @ [EvGenerate (request_of D self a f0 f1) gr]\<rparr>"
        by simp_all
      with False t1 r01 Inr show ?thesis by auto
    qed
  qed
qed

section \<open>All attempts of one call\<close>

lemma requests_append [simp]: "requests (xs @ ys) = requests xs @ requests ys"
  by (induction xs rule: requests.induct) auto

lemma responses_append [simp]: "responses (xs @ ys) = responses xs @ responses ys"
  by (induction xs rule: responses.induct) auto

lemma same_config_resolve:
  assumes "same_config self self'"
  shows "resolve_model self' kw = resolve_model self kw"
    and "resolve_constraint self' crs kw = resolve_constraint self crs kw"
  using assms
  by (cases "kw ''model''"; cases crs;
      simp add: same_config_def resolve_model_def resolve_constraint_def)+

lemma same_config_request_of:
  "same_config self self' \<Longrightarrow> request_of D self' a f0 f1 = request_of D self a f0 f1"
  by (simp add: request_of_def free_text_mode_def same_config_resolve)

lemma same_config_decode:
  "same_config self self' \<Longrightarrow> decode D self' a resp = decode D self a resp"
  by (simp add: decode_def free_text_mode_def same_config_resolve)

lemma body_elim [consumes 1, case_names no_model upload_failed generate_failed generated]:
  assumes "invoke_async_body D P a (self, w) = (r, self', w')"
  obtains
    (no_model) "resolve_model self (kwargs a) = PNone" "self' = self" "w' = w"
      "r = Inl (ValueError ''Model must be provided either at initialization or via kwargs.'')"
  | (upload_failed) g e where "resolve_model self (kwargs a) \<noteq> PNone" "self' = self"
      "trace w' = trace w @ gathered_events (challenge_screenshot a) (grid_divisions a) g"
      "gathered_result g = Inl e" "r = Inl e"
  | (generate_failed) g f0 f1 e where "resolve_model self (kwargs a) \<noteq> PNone" "self' = self"
      "trace w' = trace w @ gathered_events (challenge_screenshot a) (grid_divisions a) g @
                    [EvGenerate (request_of D self a f0 f1) (Inl e)]"
      "gathered_result g = Inr (f0, f1)" "r = Inl e"
  | (generated) g f0 f1 resp where "resolve_model self (kwargs a) \<noteq> PNone"
      "self' = self\<lparr>self_response := Some resp\<rparr>"
      "trace w' = trace w @ gathered_events (challenge_screenshot a) (grid_divisions a) g @
                    [EvGenerate (request_of D self a f0 f1) (Inr resp)]"
      "gathered_result g = Inr (f0, f1)" "r = decode D self a resp"
  using body_cases [OF assms] by blast

lemma body_attempts_inv:
  assumes b: "invoke_async_body D P a s = (r, s')" and i: "attempts_inv D a self w s"
  shows "attempts_inv D a self w s' \<and> attempts_post D a self w r s'"
proof -
  obtain self1 w1 where s: "s = (self1, w1)" by (cases s) auto
  obtain self2 w2 where s': "s' = (self2, w2)" by (cases s') auto
  from i s obtain evs where sc: "same_config self self1"
    and t: "trace w1 = trace w @ evs"
    and q: "\<forall>q \<in> set (requests evs). \<exists>f0 f1. q = request_of D self a f0 f1"
    and rs: "self_response self1 =
               (if responses evs = [] then self_response self else Some (last (responses evs)))"
    by (auto simp: attempts_inv_def)
  note ro = same_config_request_of [OF sc] and de = same_config_decode [OF sc]
  from b s s' have "invoke_async_body D P a (self1, w1) = (r, self2, w2)" by simp
  then show ?thesis
  proof (cases rule: body_elim)
    case no_model
    with i s s' show ?thesis by (simp add: attempts_post_def)
  next
    case (upload_failed g e)
    with sc t q rs s' show ?thesis
      by (simp add: attempts_inv_def attempts_post_def)
  next
    case (generate_failed g f0 f1 e)
    with sc t q rs s' ro show ?thesis
      by (auto simp add: attempts_inv_def attempts_post_def)
  next
    case (generated g f0 f1 resp)
    with sc t q rs s' ro de show ?thesis
      by (auto simp add: attempts_inv_def attempts_post_def same_config_def)
  qed
qed

lemma attempts_inv_log:
  "attempts_inv D a self w (self1, w1) \<Longrightarrow>
   attempts_inv D a self w
     (self1, w1\<lparr>trace := trace w1 @ [EvLogWarning n e, EvSleep wait_fixed]\<rparr>)"
  by (auto simp: attempts_inv_def)

lemma attempts_inv_init: "attempts_inv D a self w (self, w)"
  by (simp add: attempts_inv_def same_config_def)

lemma invoke_async_summary:
  assumes "invoke_async D P a (self, w) = (r, self', w')"
  shows "attempts_inv D a self w (self', w') \<and> attempts_post D a self w r (self', w')"
proof (rule retry_invariant [where fn = "invoke_async_body D P a" and n = 1 and s = "(self, w)"])
  show "\<And>s r s'. invoke_async_body D P a s = (r, s') \<Longrightarrow> attempts_inv D a self w s \<Longrightarrow>
          attempts_inv D a self w s' \<and> attempts_post D a self w r s'"
    by (rule body_attempts_inv)
  show "\<And>self1 w1 n e. attempts_inv D a self w (self1, w1) \<Longrightarrow>
          attempts_inv D a self w
            (self1, w1\<lparr>trace := trace w1 @ [EvLogWarning n e, EvSleep wait_fixed]\<rparr>)"
    by (rule attempts_inv_log)
  show "\<And>e s. attempts_post D a self w (Inl e) s \<Longrightarrow> attempts_post D a self w (Inl (RetryError e)) s"
    by (simp add: attempts_post_def)
  show "attempts_inv D a self w (self, w)" by (rule attempts_inv_init)
  from assms show "tenacity_retry (invoke_async_body D P a) 1 (self, w) = (r, self', w')"
    by (simp add: invoke_async_def)
qed

lemma invoke_async_requests:
  assumes "invoke_async D P a (self, w) = (r, self', w')"
  shows "\<exists>evs. trace w' = trace w @ evs \<and>
           (\<forall>q \<in> set (requests evs). \<exists>f0 f1. q = request_of D self a f0 f1)"
  using invoke_async_summary [OF assms] by (auto simp: attempts_inv_def)

lemma invoke_async_requests_all:
  assumes "invoke_async D P a (self, w) = (r, self', w')"
    and "\<And>f0 f1. Q (request_of D self a f0 f1)"
  shows "\<exists>evs. trace w' = trace w @ evs \<and> (\<forall>q \<in> set (requests evs). Q q)"
proof -
  from invoke_async_requests [OF assms(1)] obtain evs where t: "trace w' = trace w @ evs"
    and q: "\<forall>q \<in> set (requests evs). \<exists>f0 f1. q = request_of D self a f0 f1" by blast
  have "\<forall>q \<in> set (requests evs). Q q"
  proof
    fix q assume "q \<in> set (requests evs)"
    with q obtain f0 f1 where "q = request_of D self a f0 f1" by blast
    with assms(2) show "Q q" by simp
  qed
  with t show ?thesis by blast
qed

section \<open>The calls of the examples, evaluated\<close>

lemma run_down_eval:
  "run_down =
     (Inl (RetryError (OtherException 7)), stub_self (PStr ''gemini-2.5-pro'') True,
      \<lparr>prov = 6,
       trace = [EvUploadStart ''challenge.png'', EvUploadStart ''grid.png'',
                EvUploadDone ''challenge.png'' (Inl (OtherException 7)),
                EvLogWarning 1 (OtherException 7), EvSleep 3,
                EvUploadStart ''challenge.png'', EvUploadStart ''grid.png'',
                EvUploadDone ''challenge.png'' (Inl (OtherException 7)),
                EvLogWarning 2 (OtherException 7), EvSleep 3,
                EvUploadStart ''challenge.png'', EvUploadStart ''grid.png'',
                EvUploadDone ''challenge.png'' (Inl (OtherException 7))]\<rparr>)"
  unfolding run_down_def invoke_async_def tenacity_retry_unrolled by (simp add: run_defs)

lemma run_no_model_eval:
  "run_no_model =
     (Inl (RetryError (ValueError ''Model must be provided either at initialization or via kwargs.'')),
      stub_self PNone True,
      \<lparr>prov = 0,
       trace = [EvLogWarning 1
                  (ValueError ''Model must be provided either at initialization or via kwargs.''),
                EvSleep 3,
                EvLogWarning 2
                  (ValueError ''Model must be provided either at initialization or via kwargs.''),
                EvSleep 3]\<rparr>)"
  unfolding run_no_model_def invoke_async_def tenacity_retry_unrolled by (simp add: run_defs)

lemma run_hint_body:
  "run_hint =
     invoke_async_body stub_deps (stub_answering answer) (stub_args (PStr ''hint'') None Map.empty)
       (stub_self (PStr ''gemini-2.5-pro'') True, world0)"
  unfolding run_hint_def by (rule invoke_async_first_attempt) (simp add: run_defs)

lemma run_hint_eval:
  "run_hint =
     (Inr \<lparr>challenge_prompt = ''x'', points = [\<lparr>point_x = 12, point_y = 34\<rparr>]\<rparr>,
      (stub_self (PStr ''gemini-2.5-pro'') True)\<lparr>self_response := Some (parsed_response answer)\<rparr>,
      \<lparr>prov = 3,
       trace = [EvUploadStart ''challenge.png'', EvUploadStart ''grid.png'',
                EvUploadDone ''challenge.png'' (Inr (png ''files/a'')),
                EvUploadDone ''grid.png'' (Inr (png ''files/b'')),
                EvGenerate hint_request (Inr (parsed_response answer))]\<rparr>)"
  by (simp add: run_hint_body) (simp add: run_defs hint_request_def parsed_response_def)

lemma run_budget_body:
  "run_budget =
     invoke_async_body stub_deps (stub_answering answer)
       (stub_args (PStr []) None [''thinking_budget'' \<mapsto> PInt 1024])
       (stub_self (PStr ''gemini-2.5-pro'') True, world0)"
  unfolding run_budget_def by (rule invoke_async_first_attempt) (simp add: run_defs)

lemma run_legacy_body:
  "run_legacy =
     invoke_async_body stub_deps stub_texting
       (stub_args (PStr []) (Some True) [''model'' \<mapsto> PStr legacy_model])
       (stub_self (PStr ''gemini-2.5-pro'') True, world0)"
  unfolding run_legacy_def by (rule invoke_async_first_attempt) (simp add: run_defs)


lemma THINKING_PROMPT_nonempty: "THINKING_PROMPT \<noteq> []"
  by (simp add: THINKING_PROMPT_def)

lemma run_prompt_as_hint_body:
  "run_prompt_as_hint =
     invoke_async_body stub_deps (stub_answering answer)
       (stub_args (PStr THINKING_PROMPT) None Map.empty)
       (stub_self (PStr ''gemini-2.5-pro'') True, world0)"
  unfolding run_prompt_as_hint_def by (rule invoke_async_first_attempt) (simp add: run_defs)

lemma run_prompt_as_hint_contents:
  "map req_contents (requests (trace (snd (snd run_prompt_as_hint)))) =
     [[\<lparr>role = ''user'',
        parts = [Part_from_uri ''files/a'' ''image/png'', Part_from_uri ''files/b'' ''image/png'',
                 Part_from_text THINKING_PROMPT]\<rparr>]]"
  by (simp add: run_prompt_as_hint_body) (simp add: run_defs THINKING_PROMPT_nonempty)

lemma attempt_grid_first_eval:
  "trace (snd (snd attempt_grid_first)) =
     [EvUploadStart ''challenge.png'', EvUploadStart ''grid.png'',
      EvUploadDone ''grid.png'' (Inr (png ''files/b'')),
      EvUploadDone ''challenge.png'' (Inr (png ''files/a'')),
      EvGenerate plain_request (Inr (parsed_response answer))]"
  by (simp add: attempt_grid_first_def run_defs plain_request_def parsed_response_def)

section \<open>Requests and results\<close>

lemma build_parts_cases:
  "build_parts f0 f1 aux =
     [Part_from_uri (uri f0) (mime_type f0), Part_from_uri (uri f1) (mime_type f1)] @
     (case aux of PStr s \<Rightarrow> if s = [] then [] else [Part_from_text s] | _ \<Rightarrow> [])"
  by (cases aux) (simp_all add: build_parts_def)

lemma build_parts_shape:
  "\<exists>rest. build_parts f0 f1 aux =
            Part_from_uri (uri f0) (mime_type f0) # Part_from_uri (uri f1) (mime_type f1) # rest \<and>
          (\<forall>p \<in> set rest. case p of Part_from_text t \<Rightarrow> aux = PStr t
                                   | Part_from_uri u m \<Rightarrow> False)"
proof (cases aux)
  case (PStr s)
  show ?thesis
  proof (cases "s = []")
    case True
    with PStr show ?thesis by (simp add: build_parts_cases)
  next
    case False
    with PStr show ?thesis by (simp add: build_parts_cases)
  qed
qed (simp_all add: build_parts_cases)

lemma request_of_contents:
  "\<exists>rest. req_contents (request_of D self a f0 f1) =
            [\<lparr>role = ''user'',
              parts = Part_from_uri (uri f0) (mime_type f0) #
                      Part_from_uri (uri f1) (mime_type f1) # rest\<rparr>] \<and>
          (\<forall>p \<in> set rest. case p of Part_from_text t \<Rightarrow> auxiliary_information a = PStr t
                                   | Part_from_uri u m \<Rightarrow> False)"
proof -
  from build_parts_shape [of f0 f1 "auxiliary_information a"] obtain rest where
    b: "build_parts f0 f1 (auxiliary_information a) =
          Part_from_uri (uri f0) (mime_type f0) # Part_from_uri (uri f1) (mime_type f1) # rest"
    and r: "\<forall>p \<in> set rest. case p of Part_from_text t \<Rightarrow> auxiliary_information a = PStr t
                                  | Part_from_uri u m \<Rightarrow> False"
    by blast
  have "req_contents (request_of D self a f0 f1) =
          [\<lparr>role = ''user'', parts = build_parts f0 f1 (auxiliary_information a)\<rparr>]"
    by (simp add: request_of_def Let_def)
  with b r show ?thesis by (intro exI [of _ rest] conjI) simp_all
qed

lemma request_of_system_instruction:
  "system_instruction (req_config (request_of D self a f0 f1)) = THINKING_PROMPT"
  by (simp add: request_of_def Let_def build_config_def)

lemma request_of_parts:
  "\<exists>rest. req_contents (request_of D self a f0 f1) =
            [\<lparr>role = ''user'',
              parts = Part_from_uri (uri f0) (mime_type f0) #
                      Part_from_uri (uri f1) (mime_type f1) # rest\<rparr>] \<and>
          (\<forall>p \<in> set rest. case p of Part_from_text t \<Rightarrow> auxiliary_information a = PStr t
                                   | Part_from_uri u m \<Rightarrow> False) \<and>
          (auxiliary_information a \<noteq> PStr THINKING_PROMPT \<longrightarrow>
             Part_from_text THINKING_PROMPT \<notin>
               set (Part_from_uri (uri f0) (mime_type f0) #
                    Part_from_uri (uri f1) (mime_type f1) # rest))"
proof -
  from request_of_contents [of D self a f0 f1] obtain rest where
    c: "req_contents (request_of D self a f0 f1) =
          [\<lparr>role = ''user'',
            parts = Part_from_uri (uri f0) (mime_type f0) #
                    Part_from_uri (uri f1) (mime_type f1) # rest\<rparr>]"
    and r: "\<forall>p \<in> set rest. case p of Part_from_text t \<Rightarrow> auxiliary_information a = PStr t
                                  | Part_from_uri u m \<Rightarrow> False"
    by blast
  have "auxiliary_information a = PStr THINKING_PROMPT"
    if m: "Part_from_text THINKING_PROMPT \<in> set rest"
  proof -
    from r m have "case Part_from_text THINKING_PROMPT of
                     Part_from_text t \<Rightarrow> auxiliary_information a = PStr t
                   | Part_from_uri u m \<Rightarrow> False"
      by (rule bspec)
    then show ?thesis by simp
  qed
  then have "auxiliary_information a \<noteq> PStr THINKING_PROMPT \<longrightarrow>
             Part_from_text THINKING_PROMPT \<notin>
               set (Part_from_uri (uri f0) (mime_type f0) #
                    Part_from_uri (uri f1) (mime_type f1) # rest)"
    by auto
  with c r show ?thesis by blast
qed

lemma invoke_async_result:
  assumes "invoke_async D P a (self, w) = (r, self', w')"
  shows "\<exists>evs. trace w' = trace w @ evs \<and>
           (\<forall>q \<in> set (requests evs). \<exists>f0 f1. q = request_of D self a f0 f1) \<and>
           same_config self self' \<and>
           self_response self' =
             (if responses evs = [] then self_response self else Some (last (responses evs))) \<and>
           (\<forall>c. r = Inr c \<longrightarrow>
              responses evs \<noteq> [] \<and> decode D self a (last (responses evs)) = Inr c)"
proof -
  from invoke_async_summary [OF assms] obtain evs where
    t: "trace w' = trace w @ evs"
    and q: "\<forall>q \<in> set (requests evs). \<exists>f0 f1. q = request_of D self a f0 f1"
    and sc: "same_config self self'"
    and rs: "self_response self' =
               (if responses evs = [] then self_response self else Some (last (responses evs)))"
    and post: "attempts_post D a self w r (self', w')"
    by (auto simp: attempts_inv_def)
  have "\<forall>c. r = Inr c \<longrightarrow>
          responses evs \<noteq> [] \<and> decode D self a (last (responses evs)) = Inr c"
  proof (intro allI impI)
    fix c assume "r = Inr c"
    with post obtain evs' where "trace w' = trace w @ evs'" "responses evs' \<noteq> []"
      "decode D self a (last (responses evs')) = Inr c"
      by (auto simp: attempts_post_def)
    with t show "responses evs \<noteq> [] \<and> decode D self a (last (responses evs)) = Inr c"
      by simp
  qed
  with t q sc rs show ?thesis by blast
qed



section \<open>The claims\<close>

subsection \<open>C1: a call without a model\<close>

text \<open>
  C1, as the code has it: when no model is resolvable (\<^verbatim>\<open>kwargs\<close> has no \<^verbatim>\<open>model\<close> and none
  is stored, or the resolved value is \<^verbatim>\<open>None\<close>), every attempt raises the \<^verbatim>\<open>ValueError\<close>
  before any upload or inference call. The retry envelope treats that failure like any
  other: the call makes three attempts, logs and waits three seconds after the first and
  after the second, and ends with a \<^verbatim>\<open>RetryError\<close> holding the \<^verbatim>\<open>ValueError\<close>. The solver
  and the provider are left as they were; the trace gains the two warnings and the two
  waits and nothing else.
\<close>

theorem no_model_is_retried:
  assumes "resolve_model self (kwargs a) = PNone"
  shows "invoke_async D P a (self, w) =
           (Inl (RetryError
                  (ValueError ''Model must be provided either at initialization or via kwargs.'')),
            self,
            w\<lparr>trace := trace w @
               [EvLogWarning 1
                  (ValueError ''Model must be provided either at initialization or via kwargs.''),
                EvSleep 3,
                EvLogWarning 2
                  (ValueError ''Model must be provided either at initialization or via kwargs.''),
                EvSleep 3]\<rparr>)"
  unfolding invoke_async_def tenacity_retry_unrolled
  by (simp add: body_no_model [OF assms])

theorem no_model_is_retried_witness:
  "resolve_model (stub_self PNone True) (kwargs (stub_args (PStr []) None Map.empty)) = PNone \<and>
   fst run_no_model =
     Inl (RetryError
           (ValueError ''Model must be provided either at initialization or via kwargs.'')) \<and>
   requests (trace (snd (snd run_no_model))) = []"
proof -
  have h: "resolve_model (stub_self PNone True) (kwargs (stub_args (PStr []) None Map.empty))
             = PNone"
    by (simp add: resolve_model_def stub_self_def stub_args_def)
  from no_model_is_retried [OF h, of stub_deps "stub_answering answer" world0] h
  show ?thesis by (simp add: run_no_model_def world0_def)
qed

text \<open>
  C1 as stated fails: on a solver without a model the caller does not get the
  \<^verbatim>\<open>ValueError\<close> at once, but a \<^verbatim>\<open>RetryError\<close> after two logged waits of three seconds.
\<close>

theorem no_model_fails_fast_counterexample:
  "fst run_no_model \<noteq>
     Inl (ValueError ''Model must be provided either at initialization or via kwargs.'') \<and>
   trace (snd (snd run_no_model)) =
     [EvLogWarning 1
        (ValueError ''Model must be provided either at initialization or via kwargs.''),
      EvSleep 3,
      EvLogWarning 2
        (ValueError ''Model must be provided either at initialization or via kwargs.''),
      EvSleep 3]"
  by (simp add: run_no_model_eval)

subsection \<open>C2: the retry envelope\<close>

text \<open>
  C2, as the code has it: a call is at most three attempts. An attempt that returns ends
  the call with its result. An attempt that raises an exception derived from
  \<^verbatim>\<open>Exception\<close> is followed, after the first and after the second attempt, by a warning
  with the number of the attempt and the exception, a wait of three seconds and the next
  attempt; after the third attempt no further attempt is made and a \<^verbatim>\<open>RetryError\<close> holding
  the last exception is raised (not that exception itself). An exception that is not
  derived from \<^verbatim>\<open>Exception\<close> ends the call at once and is raised as it is.
\<close>

theorem retry_envelope:
  "invoke_async D P a s =
     (case invoke_async_body D P a s of
        (Inr v, s1) \<Rightarrow> (Inr v, s1)
      | (Inl e1, self1, w1) \<Rightarrow>
          if \<not> is_Exception e1 then (Inl e1, self1, w1)
          else
            (case invoke_async_body D P a
                    (self1, w1\<lparr>trace := trace w1 @ [EvLogWarning 1 e1, EvSleep 3]\<rparr>) of
               (Inr v, s2) \<Rightarrow> (Inr v, s2)
             | (Inl e2, self2, w2) \<Rightarrow>
                 if \<not> is_Exception e2 then (Inl e2, self2, w2)
                 else
                   (case invoke_async_body D P a
                           (self2, w2\<lparr>trace := trace w2 @ [EvLogWarning 2 e2, EvSleep 3]\<rparr>) of
                      (Inr v, s3) \<Rightarrow> (Inr v, s3)
                    | (Inl e3, self3, w3) \<Rightarrow>
                        if \<not> is_Exception e3 then (Inl e3, self3, w3)
                        else (Inl (RetryError e3), self3, w3))))"
  unfolding invoke_async_def by (rule tenacity_retry_unrolled)

theorem retry_envelope_witness:
  "run_down =
     (Inl (RetryError (OtherException 7)), stub_self (PStr ''gemini-2.5-pro'') True,
      \<lparr>prov = 6,
       trace = [EvUploadStart ''challenge.png'', EvUploadStart ''grid.png'',
                EvUploadDone ''challenge.png'' (Inl (OtherException 7)),
                EvLogWarning 1 (OtherException 7), EvSleep 3,
                EvUploadStart ''challenge.png'', EvUploadStart ''grid.png'',
                EvUploadDone ''challenge.png'' (Inl (OtherException 7)),
                EvLogWarning 2 (OtherException 7), EvSleep 3,
                EvUploadStart ''challenge.png'', EvUploadStart ''grid.png'',
                EvUploadDone ''challenge.png'' (Inl (OtherException 7))]\<rparr>)"
  unfolding run_down_def
  by (subst retry_envelope) (simp add: run_defs)

text \<open>
  C2 as stated fails in its last part: with a provider that is down, what reaches the
  caller after the third attempt is not the provider's exception but a \<^verbatim>\<open>RetryError\<close>.
\<close>

theorem last_exception_unmodified_counterexample:
  "fst run_down \<noteq> Inl (OtherException 7) \<and>
   fst run_down = Inl (RetryError (OtherException 7))"
  by (simp add: run_down_eval)

subsection \<open>C3: the order of the content\<close>

text \<open>
  C3, as the code has it: in every attempt that issues an inference call, the call comes
  after both uploads have started and returned, and the single user turn of its request
  holds the part of the challenge image, then the part of the grid image, then nothing but
  text parts that hold what the caller passed as \<^verbatim>\<open>auxiliary_information\<close>; the fixed
  \<open>THINKING_PROMPT\<close> is the system instruction of the configuration. The attempt builds no
  part from the prompt: unless the caller passes the text of the prompt as
  \<^verbatim>\<open>auxiliary_information\<close>, no part holds it.
\<close>

theorem content_order:
  assumes "invoke_async_body D P a (self, w) = (r, self', w')"
    and "trace w' = trace w @ evs"
    and "EvGenerate q gr \<in> set evs"
  shows "\<exists>(f0::File) (f1::File) second_first rest.
           evs = [EvUploadStart (challenge_screenshot a), EvUploadStart (grid_divisions a)] @
                 (if second_first
                  then [EvUploadDone (grid_divisions a) (Inr f1),
                        EvUploadDone (challenge_screenshot a) (Inr f0)]
                  else [EvUploadDone (challenge_screenshot a) (Inr f0),
                        EvUploadDone (grid_divisions a) (Inr f1)]) @
                 [EvGenerate q gr] \<and>
           req_contents q =
             [\<lparr>role = ''user'',
               parts = Part_from_uri (uri f0) (mime_type f0) #
                       Part_from_uri (uri f1) (mime_type f1) # rest\<rparr>] \<and>
           (\<forall>p \<in> set rest. case p of Part_from_text t \<Rightarrow> auxiliary_information a = PStr t
                                   | Part_from_uri u m \<Rightarrow> False) \<and>
           (auxiliary_information a \<noteq> PStr THINKING_PROMPT \<longrightarrow>
              Part_from_text THINKING_PROMPT \<notin>
                set (Part_from_uri (uri f0) (mime_type f0) #
                     Part_from_uri (uri f1) (mime_type f1) # rest)) \<and>
           system_instruction (req_config q) = THINKING_PROMPT"
proof -
  have shape: ?thesis
    if g: "gathered_result g = Inr (f0, f1)"
      and t: "trace w' = trace w @
                gathered_events (challenge_screenshot a) (grid_divisions a) g @
                [EvGenerate (request_of D self a f0 f1) gr']"
    for g f0 f1 gr'
  proof -
    from gathered_result_Inr [OF g] obtain second_first where
      g': "g = Both_returned second_first f0 f1" by blast
    from t assms(2) have e: "evs = gathered_events (challenge_screenshot a) (grid_divisions a) g @
                [EvGenerate (request_of D self a f0 f1) gr']"
      by simp
    with assms(3) g' have q: "q = request_of D self a f0 f1" and gr: "gr = gr'"
      by (auto split: if_splits)
    from e g' q gr have evs:
      "evs = [EvUploadStart (challenge_screenshot a), EvUploadStart (grid_divisions a)] @
             (if second_first
              then [EvUploadDone (grid_divisions a) (Inr f1),
                    EvUploadDone (challenge_screenshot a) (Inr f0)]
              else [EvUploadDone (challenge_screenshot a) (Inr f0),
                    EvUploadDone (grid_divisions a) (Inr f1)]) @
             [EvGenerate q gr]"
      by simp
    from request_of_parts [of D self a f0 f1] request_of_system_instruction [of D self a f0 f1]
      q evs show ?thesis by blast
  qed
  from assms(1) show ?thesis
  proof (cases rule: body_elim)
    case no_model
    with assms(2,3) show ?thesis by simp
  next
    case (upload_failed g e)
    with assms(2) have "evs = gathered_events (challenge_screenshot a) (grid_divisions a) g"
      by simp
    with assms(3) have False by (cases g) (auto split: option.splits if_splits)
    then show ?thesis ..
  next
    case (generate_failed g f0 f1 e)
    then show ?thesis by (intro shape [of g f0 f1 "Inl e"])
  next
    case (generated g f0 f1 resp)
    then show ?thesis by (intro shape [of g f0 f1 "Inr resp"])
  qed
qed

theorem content_order_witness:
  "EvGenerate hint_request (Inr (parsed_response answer)) \<in> set (trace (snd (snd run_hint))) \<and>
   (\<exists>(f0::File) (f1::File) second_first rest.
      trace (snd (snd run_hint)) =
        [EvUploadStart ''challenge.png'', EvUploadStart ''grid.png''] @
        (if second_first
         then [EvUploadDone ''grid.png'' (Inr f1), EvUploadDone ''challenge.png'' (Inr f0)]
         else [EvUploadDone ''challenge.png'' (Inr f0), EvUploadDone ''grid.png'' (Inr f1)]) @
        [EvGenerate hint_request (Inr (parsed_response answer))] \<and>
      req_contents hint_request =
        [\<lparr>role = ''user'',
          parts = Part_from_uri (uri f0) (mime_type f0) #
                  Part_from_uri (uri f1) (mime_type f1) # rest\<rparr>] \<and>
      (\<forall>p \<in> set rest. case p of Part_from_text t \<Rightarrow> PStr ''hint'' = PStr t
                                   | Part_from_uri u m \<Rightarrow> False) \<and>
      (PStr ''hint'' \<noteq> PStr THINKING_PROMPT \<longrightarrow>
         Part_from_text THINKING_PROMPT \<notin>
           set (Part_from_uri (uri f0) (mime_type f0) #
                Part_from_uri (uri f1) (mime_type f1) # rest)) \<and>
      system_instruction (req_config hint_request) = THINKING_PROMPT) \<and>
   PStr ''hint'' \<noteq> PStr THINKING_PROMPT"
proof -
  have b: "invoke_async_body stub_deps (stub_answering answer)
             (stub_args (PStr ''hint'') None Map.empty)
             (stub_self (PStr ''gemini-2.5-pro'') True, world0) =
           (fst run_hint, fst (snd run_hint), snd (snd run_hint))"
    by (simp add: run_hint_body [symmetric])
  have t: "trace (snd (snd run_hint)) = trace world0 @ trace (snd (snd run_hint))"
    by (simp add: world0_def)
  have m: "EvGenerate hint_request (Inr (parsed_response answer))
             \<in> set (trace (snd (snd run_hint)))"
    by (simp add: run_hint_eval)
  have c: "challenge_screenshot (stub_args (PStr ''hint'') None Map.empty) = ''challenge.png''"
    "grid_divisions (stub_args (PStr ''hint'') None Map.empty) = ''grid.png''"
    "auxiliary_information (stub_args (PStr ''hint'') None Map.empty) = PStr ''hint''"
    by (simp_all add: stub_args_def)
  have n: "PStr ''hint'' \<noteq> PStr THINKING_PROMPT"
    by (simp add: THINKING_PROMPT_def)
  from content_order [OF b t m] m n show ?thesis unfolding c by (intro conjI)
qed

text \<open>
  C3 as stated fails in its second part: nothing keeps the caller from passing the text
  of \<open>THINKING_PROMPT\<close> as \<^verbatim>\<open>auxiliary_information\<close>, and lines 107 and 108 then append
  it as a text part, so that the request carries the prompt both as its system instruction
  and inside the parts of its content.
\<close>

theorem prompt_among_parts_counterexample:
  "map (\<lambda>q. (system_instruction (req_config q), map parts (req_contents q)))
     (requests (trace (snd (snd run_prompt_as_hint)))) =
     [(THINKING_PROMPT,
       [[Part_from_uri ''files/a'' ''image/png'', Part_from_uri ''files/b'' ''image/png'',
         Part_from_text THINKING_PROMPT]])]"
  by (simp add: run_prompt_as_hint_body) (simp add: run_defs THINKING_PROMPT_nonempty)

subsection \<open>C4: the schema-constraint flag\<close>

text \<open>
  C4, as the code has it: a value of \<^verbatim>\<open>enable_response_schema\<close> in \<^verbatim>\<open>kwargs\<close> that is not
  \<^verbatim>\<open>None\<close> is the effective flag, whatever the other two say; without it the
  \<^verbatim>\<open>constraint_response_schema\<close> argument of the call is, when it is not \<^verbatim>\<open>None\<close>; and
  the default stored at construction is only used when neither is given.
\<close>

theorem resolve_constraint_precedence:
  "(kwargs_get kw ''enable_response_schema'' = v \<and> v \<noteq> PNone \<longrightarrow>
      resolve_constraint self crs kw = v) \<and>
   (kwargs_get kw ''enable_response_schema'' = PNone \<and> crs = Some b \<longrightarrow>
      resolve_constraint self crs kw = PBool b) \<and>
   (kwargs_get kw ''enable_response_schema'' = PNone \<and> crs = None \<longrightarrow>
      resolve_constraint self crs kw = PBool (self_constraint_response_schema self))"
  by (simp add: resolve_constraint_def)

theorem resolve_constraint_precedence_witness:
  "resolve_constraint (stub_self (PStr ''gemini-2.5-pro'') True) (Some True)
     [''enable_response_schema'' \<mapsto> PBool False] = PBool False \<and>
   resolve_constraint (stub_self (PStr ''gemini-2.5-pro'') False) (Some True) Map.empty = PBool True \<and>
   resolve_constraint (stub_self (PStr ''gemini-2.5-pro'') True) None Map.empty = PBool True"
proof -
  have k1: "kwargs_get [''enable_response_schema'' \<mapsto> PBool False] ''enable_response_schema''
              = PBool False"
    by (simp add: kwargs_get_def)
  have k2: "kwargs_get Map.empty ''enable_response_schema'' = PNone"
    by (simp add: kwargs_get_def)
  from k1 resolve_constraint_precedence
         [of "[''enable_response_schema'' \<mapsto> PBool False]" "PBool False"
             "stub_self (PStr ''gemini-2.5-pro'') True" "Some True"]
  have a: "resolve_constraint (stub_self (PStr ''gemini-2.5-pro'') True) (Some True)
             [''enable_response_schema'' \<mapsto> PBool False] = PBool False"
    by simp
  from k2 resolve_constraint_precedence
         [of Map.empty _ "stub_self (PStr ''gemini-2.5-pro'') False" "Some True" True]
  have b: "resolve_constraint (stub_self (PStr ''gemini-2.5-pro'') False) (Some True) Map.empty
             = PBool True"
    by simp
  from k2 resolve_constraint_precedence
         [of Map.empty _ "stub_self (PStr ''gemini-2.5-pro'') True" None]
  have c: "resolve_constraint (stub_self (PStr ''gemini-2.5-pro'') True) None Map.empty
             = PBool True"
    by (simp add: stub_self_def)
  from a b c show ?thesis by simp
qed

text \<open>
  C4 as stated fails: with \<^verbatim>\<open>constraint_response_schema=True\<close> passed in the call and
  \<^verbatim>\<open>enable_response_schema=False\<close> in \<^verbatim>\<open>kwargs\<close>, the effective flag is \<^verbatim>\<open>False\<close>: the
  explicit argument of the call does not win.
\<close>

theorem explicit_override_counterexample:
  "resolve_constraint (stub_self (PStr ''gemini-2.5-pro'') True) (Some True)
     [''enable_response_schema'' \<mapsto> PBool False] \<noteq> PBool True"
  by (simp add: resolve_constraint_def kwargs_get_def)

subsection \<open>C5: the legacy model\<close>

text \<open>
  C5: when the resolved model is \<^verbatim>\<open>gemini-2.0-flash-thinking-exp-01-21\<close>, every inference
  call of the call is issued in free-text mode, whatever the schema-constraint flag says:
  its configuration has no response MIME type and no response schema. A result that is
  returned is the one constructed from the first JSON block extracted from the text of the
  last response; the pre-parsed object is not looked at.
\<close>

theorem legacy_model_free_text:
  assumes "resolve_model self (kwargs a) = PStr legacy_model"
    and "invoke_async D P a (self, w) = (r, self', w')"
  shows "\<exists>evs. trace w' = trace w @ evs \<and>
           (\<forall>q \<in> set (requests evs).
              response_mime_type (req_config q) = None \<and>
              response_schema (req_config q) = None) \<and>
           (\<forall>c. r = Inr c \<longrightarrow>
              responses evs \<noteq> [] \<and>
              (\<exists>d. extract_first_json_block D (response_text (last (responses evs))) = Inr d \<and>
                   ImageAreaSelectChallenge_init D d = Inr c))"
proof -
  from assms(1) have ft: "free_text_mode self a" by (simp add: free_text_mode_def)
  from invoke_async_result [OF assms(2)] obtain evs where
    t: "trace w' = trace w @ evs"
    and q: "\<forall>q \<in> set (requests evs). \<exists>f0 f1. q = request_of D self a f0 f1"
    and post: "\<forall>c. r = Inr c \<longrightarrow>
                 responses evs \<noteq> [] \<and> decode D self a (last (responses evs)) = Inr c"
    by blast
  have cfg: "response_mime_type (req_config (request_of D self a f0 f1)) = None \<and>
             response_schema (req_config (request_of D self a f0 f1)) = None" for f0 f1
    using ft by (simp add: request_of_def Let_def build_config_def)
  have "\<forall>q \<in> set (requests evs).
          response_mime_type (req_config q) = None \<and> response_schema (req_config q) = None"
  proof
    fix q assume "q \<in> set (requests evs)"
    with q obtain f0 f1 where "q = request_of D self a f0 f1" by blast
    with cfg show "response_mime_type (req_config q) = None \<and>
                   response_schema (req_config q) = None"
      by simp
  qed
  moreover have "\<forall>c. r = Inr c \<longrightarrow>
          responses evs \<noteq> [] \<and>
          (\<exists>d. extract_first_json_block D (response_text (last (responses evs))) = Inr d \<and>
               ImageAreaSelectChallenge_init D d = Inr c)"
  proof (intro allI impI)
    fix c assume "r = Inr c"
    with post have ne: "responses evs \<noteq> []"
      and "decode D self a (last (responses evs)) = Inr c" by simp_all
    with ft have p: "parse_text D (last (responses evs)) = Inr c" by (simp add: decode_def)
    then obtain d where
      "extract_first_json_block D (response_text (last (responses evs))) = Inr d"
      "ImageAreaSelectChallenge_init D d = Inr c"
      by (cases "extract_first_json_block D (response_text (last (responses evs)))")
         (simp_all add: parse_text_def)
    with ne show "responses evs \<noteq> [] \<and>
          (\<exists>d. extract_first_json_block D (response_text (last (responses evs))) = Inr d \<and>
               ImageAreaSelectChallenge_init D d = Inr c)"
      by blast
  qed
  ultimately show ?thesis using t by blast
qed

theorem legacy_model_free_text_witness:
  "resolve_model (stub_self (PStr ''gemini-2.5-pro'') True)
     (kwargs (stub_args (PStr []) (Some True) [''model'' \<mapsto> PStr legacy_model])) =
     PStr legacy_model \<and>
   fst run_legacy = Inr \<lparr>challenge_prompt = ''x'', points = [\<lparr>point_x = 12, point_y = 34\<rparr>]\<rparr> \<and>
   map (\<lambda>q. response_mime_type (req_config q)) (requests (trace (snd (snd run_legacy)))) =
     [None] \<and>
   (\<exists>evs. trace (snd (snd run_legacy)) = trace world0 @ evs \<and>
      (\<forall>q \<in> set (requests evs).
         response_mime_type (req_config q) = None \<and>
         response_schema (req_config q) = None) \<and>
      (\<forall>c. fst run_legacy = Inr c \<longrightarrow>
         responses evs \<noteq> [] \<and>
         (\<exists>d. extract_first_json_block stub_deps (response_text (last (responses evs))) = Inr d \<and>
              ImageAreaSelectChallenge_init stub_deps d = Inr c)))"
proof -
  have h: "resolve_model (stub_self (PStr ''gemini-2.5-pro'') True)
             (kwargs (stub_args (PStr []) (Some True) [''model'' \<mapsto> PStr legacy_model])) =
           PStr legacy_model"
    by (simp add: resolve_model_def stub_args_def)
  have p: "invoke_async stub_deps stub_texting
             (stub_args (PStr []) (Some True) [''model'' \<mapsto> PStr legacy_model])
             (stub_self (PStr ''gemini-2.5-pro'') True, world0) =
           (fst run_legacy, fst (snd run_legacy), snd (snd run_legacy))"
    by (simp add: run_legacy_def)
  have e1: "fst run_legacy =
              Inr \<lparr>challenge_prompt = ''x'', points = [\<lparr>point_x = 12, point_y = 34\<rparr>]\<rparr>"
    by (simp add: run_legacy_body) (simp add: run_defs)
  have e2: "map (\<lambda>q. response_mime_type (req_config q))
              (requests (trace (snd (snd run_legacy)))) = [None]"
    by (simp add: run_legacy_body) (simp add: run_defs)
  from h e1 e2 legacy_model_free_text [OF h p] show ?thesis by (intro conjI)
qed

subsection \<open>C6: both uploads before the inference call\<close>

text \<open>
  C6: one attempt does one of four things. Without a model it touches nothing. Otherwise
  both uploads are started, the second without waiting for the first, so that the two are
  in flight together and end in an order the program does not fix. When the upload of the
  challenge image is the first to raise, or that of the grid image is, the attempt ends
  there with that exception: the other upload has returned before or is left in flight,
  and no inference call is made. Only when both uploads have returned their files, in one
  order or the other, is the inference call issued, once, after both.
\<close>

theorem uploads_before_inference:
  assumes "invoke_async_body D P a (self, w) = (r, self', w')"
  shows "\<exists>evs. trace w' = trace w @ evs \<and>
           (evs = [] \<and> isl r \<or>
            (\<exists>e other.
               evs = [EvUploadStart (challenge_screenshot a), EvUploadStart (grid_divisions a)] @
                     (case other of None \<Rightarrow> []
                      | Some f1 \<Rightarrow> [EvUploadDone (grid_divisions a) (Inr f1)]) @
                     [EvUploadDone (challenge_screenshot a) (Inl e)] \<and>
               r = Inl e) \<or>
            (\<exists>e other.
               evs = [EvUploadStart (challenge_screenshot a), EvUploadStart (grid_divisions a)] @
                     (case other of None \<Rightarrow> []
                      | Some f0 \<Rightarrow> [EvUploadDone (challenge_screenshot a) (Inr f0)]) @
                     [EvUploadDone (grid_divisions a) (Inl e)] \<and>
               r = Inl e) \<or>
            (\<exists>f0 f1 second_first q gr.
               evs = [EvUploadStart (challenge_screenshot a), EvUploadStart (grid_divisions a)] @
                     (if second_first
                      then [EvUploadDone (grid_divisions a) (Inr f1),
                            EvUploadDone (challenge_screenshot a) (Inr f0)]
                      else [EvUploadDone (challenge_screenshot a) (Inr f0),
                            EvUploadDone (grid_divisions a) (Inr f1)]) @
                     [EvGenerate q gr]))"
  using assms
proof (cases rule: body_elim)
  case no_model
  then show ?thesis by simp
next
  case (upload_failed g e)
  from gathered_result_Inl [OF upload_failed(4)] show ?thesis
  proof (elim disjE exE)
    fix other assume "g = First_raised e other"
    with upload_failed(3,5) have
      "trace w' = trace w @
         ([EvUploadStart (challenge_screenshot a), EvUploadStart (grid_divisions a)] @
          (case other of None \<Rightarrow> []
           | Some f1 \<Rightarrow> [EvUploadDone (grid_divisions a) (Inr f1)]) @
          [EvUploadDone (challenge_screenshot a) (Inl e)])" "r = Inl e"
      by simp_all
    then show ?thesis by blast
  next
    fix other assume "g = Second_raised e other"
    with upload_failed(3,5) have
      "trace w' = trace w @
         ([EvUploadStart (challenge_screenshot a), EvUploadStart (grid_divisions a)] @
          (case other of None \<Rightarrow> []
           | Some f0 \<Rightarrow> [EvUploadDone (challenge_screenshot a) (Inr f0)]) @
          [EvUploadDone (grid_divisions a) (Inl e)])" "r = Inl e"
      by simp_all
    then show ?thesis by blast
  qed
next
  case (generate_failed g f0 f1 e)
  from gathered_result_Inr [OF generate_failed(4)] obtain second_first where
    "g = Both_returned second_first f0 f1" by blast
  with generate_failed(3) have
    "trace w' = trace w @
       ([EvUploadStart (challenge_screenshot a), EvUploadStart (grid_divisions a)] @
        (if second_first
         then [EvUploadDone (grid_divisions a) (Inr f1),
               EvUploadDone (challenge_screenshot a) (Inr f0)]
         else [EvUploadDone (challenge_screenshot a) (Inr f0),
               EvUploadDone (grid_divisions a) (Inr f1)]) @
        [EvGenerate (request_of D self a f0 f1) (Inl e)])"
    by simp
  then show ?thesis by blast
next
  case (generated g f0 f1 resp)
  from gathered_result_Inr [OF generated(4)] obtain second_first where
    "g = Both_returned second_first f0 f1" by blast
  with generated(3) have
    "trace w' = trace w @
       ([EvUploadStart (challenge_screenshot a), EvUploadStart (grid_divisions a)] @
        (if second_first
         then [EvUploadDone (grid_divisions a) (Inr f1),
               EvUploadDone (challenge_screenshot a) (Inr f0)]
         else [EvUploadDone (challenge_screenshot a) (Inr f0),
               EvUploadDone (grid_divisions a) (Inr f1)]) @
        [EvGenerate (request_of D self a f0 f1) (Inr resp)])"
    by simp
  then show ?thesis by blast
qed

theorem uploads_before_inference_witness:
  "trace (snd (snd attempt_grid_first)) =
     [EvUploadStart ''challenge.png'', EvUploadStart ''grid.png'',
      EvUploadDone ''grid.png'' (Inr (png ''files/b'')),
      EvUploadDone ''challenge.png'' (Inr (png ''files/a'')),
      EvGenerate plain_request (Inr (parsed_response answer))] \<and>
   invoke_async_body stub_deps stub_down (stub_args (PStr []) None Map.empty)
     (stub_self (PStr ''gemini-2.5-pro'') True, world0) =
     (Inl (OtherException 7), stub_self (PStr ''gemini-2.5-pro'') True,
      \<lparr>prov = 2,
       trace = [EvUploadStart ''challenge.png'', EvUploadStart ''grid.png'',
                EvUploadDone ''challenge.png'' (Inl (OtherException 7))]\<rparr>) \<and>
   (\<exists>evs. trace (snd (snd attempt_grid_first)) = trace world0 @ evs \<and>
      (evs = [] \<and> isl (fst attempt_grid_first) \<or>
       (\<exists>e other.
          evs = [EvUploadStart (challenge_screenshot (stub_args (PStr []) None Map.empty)),
                 EvUploadStart (grid_divisions (stub_args (PStr []) None Map.empty))] @
                (case other of None \<Rightarrow> []
                 | Some f1 \<Rightarrow>
                     [EvUploadDone (grid_divisions (stub_args (PStr []) None Map.empty)) (Inr f1)]) @
                [EvUploadDone (challenge_screenshot (stub_args (PStr []) None Map.empty)) (Inl e)] \<and>
          fst attempt_grid_first = Inl e) \<or>
       (\<exists>e other.
          evs = [EvUploadStart (challenge_screenshot (stub_args (PStr []) None Map.empty)),
                 EvUploadStart (grid_divisions (stub_args (PStr []) None Map.empty))] @
                (case other of None \<Rightarrow> []
                 | Some f0 \<Rightarrow>
                     [EvUploadDone (challenge_screenshot (stub_args (PStr []) None Map.empty))
                        (Inr f0)]) @
                [EvUploadDone (grid_divisions (stub_args (PStr []) None Map.empty)) (Inl e)] \<and>
          fst attempt_grid_first = Inl e) \<or>
       (\<exists>f0 f1 second_first q gr.
          evs = [EvUploadStart (challenge_screenshot (stub_args (PStr []) None Map.empty)),
                 EvUploadStart (grid_divisions (stub_args (PStr []) None Map.empty))] @
                (if second_first
                 then [EvUploadDone (grid_divisions (stub_args (PStr []) None Map.empty)) (Inr f1),
                       EvUploadDone (challenge_screenshot (stub_args (PStr []) None Map.empty))
                         (Inr f0)]
                 else [EvUploadDone (challenge_screenshot (stub_args (PStr []) None Map.empty))
                         (Inr f0),
                       EvUploadDone (grid_divisions (stub_args (PStr []) None Map.empty)) (Inr f1)]) @
                [EvGenerate q gr])))"
proof -
  have p: "invoke_async_body stub_deps stub_grid_first (stub_args (PStr []) None Map.empty)
             (stub_self (PStr ''gemini-2.5-pro'') True, world0) =
           (fst attempt_grid_first, fst (snd attempt_grid_first), snd (snd attempt_grid_first))"
    by (simp add: attempt_grid_first_def)
  have e: "trace (snd (snd attempt_grid_first)) =
     [EvUploadStart ''challenge.png'', EvUploadStart ''grid.png'',
      EvUploadDone ''grid.png'' (Inr (png ''files/b'')),
      EvUploadDone ''challenge.png'' (Inr (png ''files/a'')),
      EvGenerate plain_request (Inr (parsed_response answer))]"
    by (rule attempt_grid_first_eval)
  have d: "invoke_async_body stub_deps stub_down (stub_args (PStr []) None Map.empty)
             (stub_self (PStr ''gemini-2.5-pro'') True, world0) =
           (Inl (OtherException 7), stub_self (PStr ''gemini-2.5-pro'') True,
            \<lparr>prov = 2,
             trace = [EvUploadStart ''challenge.png'', EvUploadStart ''grid.png'',
                      EvUploadDone ''challenge.png'' (Inl (OtherException 7))]\<rparr>)"
    by (simp add: run_defs)
  from e d uploads_before_inference [OF p] show ?thesis by (intro conjI)
qed

subsection \<open>C7: the thinking configuration\<close>

text \<open>
  C7: every inference call of a call carries the resolved model, and its configuration
  has a thinking configuration exactly when that model is one of
  \<^verbatim>\<open>THINKING_BUDGET_MODELS\<close> and the \<^verbatim>\<open>thinking_budget\<close> of \<^verbatim>\<open>kwargs\<close> is an \<^verbatim>\<open>int\<close>
  (\<^verbatim>\<open>isinstance\<close>, so \<^verbatim>\<open>True\<close> and \<^verbatim>\<open>False\<close> count); it then includes the thoughts and has
  that budget. Otherwise the request has no thinking configuration.
\<close>

theorem thinking_config_attached:
  assumes "invoke_async D P a (self, w) = (r, self', w')"
  shows "\<exists>evs. trace w' = trace w @ evs \<and>
           (\<forall>q \<in> set (requests evs).
              req_model q = resolve_model self (kwargs a) \<and>
              thinking_config (req_config q) =
                (if resolve_model self (kwargs a) \<in> set (THINKING_BUDGET_MODELS D) \<and>
                    isinstance_int (kwargs_get (kwargs a) ''thinking_budget'')
                 then Some \<lparr>include_thoughts = True,
                            thinking_budget = kwargs_get (kwargs a) ''thinking_budget''\<rparr>
                 else None))"
  by (rule invoke_async_requests_all [OF assms])
     (simp add: request_of_def Let_def build_config_def)

theorem thinking_config_attached_witness:
  "map (\<lambda>q. thinking_config (req_config q)) (requests (trace (snd (snd run_budget)))) =
     [Some \<lparr>include_thoughts = True, thinking_budget = PInt 1024\<rparr>] \<and>
   map (\<lambda>q. thinking_config (req_config q)) (requests (trace (snd (snd run_hint)))) = [None] \<and>
   (\<exists>evs. trace (snd (snd run_budget)) = trace world0 @ evs \<and>
      (\<forall>q \<in> set (requests evs).
         req_model q =
           resolve_model (stub_self (PStr ''gemini-2.5-pro'') True)
             (kwargs (stub_args (PStr []) None [''thinking_budget'' \<mapsto> PInt 1024])) \<and>
         thinking_config (req_config q) =
           (if resolve_model (stub_self (PStr ''gemini-2.5-pro'') True)
                 (kwargs (stub_args (PStr []) None [''thinking_budget'' \<mapsto> PInt 1024]))
               \<in> set (THINKING_BUDGET_MODELS stub_deps) \<and>
               isinstance_int
                 (kwargs_get (kwargs (stub_args (PStr []) None [''thinking_budget'' \<mapsto> PInt 1024]))
                    ''thinking_budget'')
            then Some \<lparr>include_thoughts = True,
                       thinking_budget =
                         kwargs_get
                           (kwargs (stub_args (PStr []) None [''thinking_budget'' \<mapsto> PInt 1024]))
                           ''thinking_budget''\<rparr>
            else None)))"
proof -
  have p: "invoke_async stub_deps (stub_answering answer)
             (stub_args (PStr []) None [''thinking_budget'' \<mapsto> PInt 1024])
             (stub_self (PStr ''gemini-2.5-pro'') True, world0) =
           (fst run_budget, fst (snd run_budget), snd (snd run_budget))"
    by (simp add: run_budget_def)
  have e1: "map (\<lambda>q. thinking_config (req_config q)) (requests (trace (snd (snd run_budget)))) =
              [Some \<lparr>include_thoughts = True, thinking_budget = PInt 1024\<rparr>]"
    by (simp add: run_budget_body) (simp add: run_defs)
  have e2: "map (\<lambda>q. thinking_config (req_config q)) (requests (trace (snd (snd run_hint)))) =
              [None]"
    by (simp add: run_hint_eval hint_request_def)
  from e1 e2 thinking_config_attached [OF p] show ?thesis by (intro conjI)
qed

subsection \<open>C8: what a call leaves on the solver\<close>

text \<open>
  C8, as the code has it: a call leaves the API key, the default model and the default
  schema-constraint flag of the solver as they were. It does change the solver: every
  inference call that returns assigns its response to \<^verbatim>\<open>self._response\<close>, so after the
  call the solver holds the last response the provider returned during it (and what it
  held before when no inference call returned), for later calls and for the caller to
  observe.
\<close>

theorem solver_after_call:
  assumes "invoke_async D P a (self, w) = (r, self', w')"
  shows "self_api_key self' = self_api_key self \<and>
         self_model self' = self_model self \<and>
         self_constraint_response_schema self' = self_constraint_response_schema self \<and>
         (\<exists>evs. trace w' = trace w @ evs \<and>
            self_response self' =
              (if responses evs = [] then self_response self
               else Some (last (responses evs))))"
  using invoke_async_result [OF assms] by (auto simp: same_config_def)

theorem solver_after_call_witness:
  "self_api_key (fst (snd run_hint)) = self_api_key (stub_self (PStr ''gemini-2.5-pro'') True) \<and>
   self_model (fst (snd run_hint)) = self_model (stub_self (PStr ''gemini-2.5-pro'') True) \<and>
   self_constraint_response_schema (fst (snd run_hint)) =
     self_constraint_response_schema (stub_self (PStr ''gemini-2.5-pro'') True) \<and>
   (\<exists>evs. trace (snd (snd run_hint)) = trace world0 @ evs \<and>
      self_response (fst (snd run_hint)) =
        (if responses evs = [] then self_response (stub_self (PStr ''gemini-2.5-pro'') True)
         else Some (last (responses evs))))"
proof -
  have p: "invoke_async stub_deps (stub_answering answer)
             (stub_args (PStr ''hint'') None Map.empty)
             (stub_self (PStr ''gemini-2.5-pro'') True, world0) =
           (fst run_hint, fst (snd run_hint), snd (snd run_hint))"
    by (simp add: run_hint_def)
  from solver_after_call [OF p] show ?thesis .
qed

text \<open>
  C8 as stated fails: the solver of the example holds no response before the call and
  holds the provider's response after it.
\<close>

theorem solver_keeps_response_counterexample:
  "self_response (stub_self (PStr ''gemini-2.5-pro'') True) = None \<and>
   self_response (fst (snd run_hint)) = Some (parsed_response answer)"
  by (simp add: run_hint_eval) (simp add: stub_self_def)

subsection \<open>C9: the result of a call that returns\<close>



subsection \<open>C10: the auxiliary text\<close>

text \<open>
  C10: the user turn of every inference call of a call is the two image parts, followed
  by one text part exactly when \<^verbatim>\<open>auxiliary_information\<close> is a non-empty string; for
  \<^verbatim>\<open>None\<close>, the empty string and any value that is not a string the two image parts are
  all there is.
\<close>

theorem auxiliary_text_part:
  assumes "invoke_async D P a (self, w) = (r, self', w')"
  shows "\<exists>evs. trace w' = trace w @ evs \<and>
           (\<forall>q \<in> set (requests evs). \<exists>(f0::File) (f1::File).
              req_contents q =
                [\<lparr>role = ''user'',
                  parts = [Part_from_uri (uri f0) (mime_type f0),
                           Part_from_uri (uri f1) (mime_type f1)] @
                          (case auxiliary_information a of
                             PStr s \<Rightarrow> if s = [] then [] else [Part_from_text s]
                           | _ \<Rightarrow> [])\<rparr>])"
proof (rule invoke_async_requests_all [OF assms])
  fix f0 f1
  have "req_contents (request_of D self a f0 f1) =
          [\<lparr>role = ''user'',
            parts = [Part_from_uri (uri f0) (mime_type f0),
                     Part_from_uri (uri f1) (mime_type f1)] @
                    (case auxiliary_information a of
                       PStr s \<Rightarrow> if s = [] then [] else [Part_from_text s]
                     | _ \<Rightarrow> [])\<rparr>]"
    by (simp add: request_of_def Let_def build_parts_cases)
  then show "\<exists>(g0::File) (g1::File). req_contents (request_of D self a f0 f1) =
          [\<lparr>role = ''user'',
            parts = [Part_from_uri (uri g0) (mime_type g0),
                     Part_from_uri (uri g1) (mime_type g1)] @
                    (case auxiliary_information a of
                       PStr s \<Rightarrow> if s = [] then [] else [Part_from_text s]
                     | _ \<Rightarrow> [])\<rparr>]"
    by blast
qed

theorem auxiliary_text_part_witness:
  "map req_contents (requests (trace (snd (snd run_hint)))) =
     [[\<lparr>role = ''user'',
        parts = [Part_from_uri ''files/a'' ''image/png'', Part_from_uri ''files/b'' ''image/png'',
                 Part_from_text ''hint'']\<rparr>]] \<and>
   map req_contents (requests (trace (snd (snd run_budget)))) =
     [[\<lparr>role = ''user'',
        parts = [Part_from_uri ''files/a'' ''image/png'',
                 Part_from_uri ''files/b'' ''image/png'']\<rparr>]] \<and>
   (\<exists>evs. trace (snd (snd run_hint)) = trace world0 @ evs \<and>
      (\<forall>q \<in> set (requests evs). \<exists>(f0::File) (f1::File).
         req_contents q =
           [\<lparr>role = ''user'',
             parts = [Part_from_uri (uri f0) (mime_type f0),
                      Part_from_uri (uri f1) (mime_type f1)] @
                     (case auxiliary_information (stub_args (PStr ''hint'') None Map.empty) of
                        PStr s \<Rightarrow> if s = [] then [] else [Part_from_text s]
                      | _ \<Rightarrow> [])\<rparr>]))"
proof -
  have p: "invoke_async stub_deps (stub_answering answer)
             (stub_args (PStr ''hint'') None Map.empty)
             (stub_self (PStr ''gemini-2.5-pro'') True, world0) =
           (fst run_hint, fst (snd run_hint), snd (snd run_hint))"
    by (simp add: run_hint_def)
  have e1: "map req_contents (requests (trace (snd (snd run_hint)))) =
     [[\<lparr>role = ''user'',
        parts = [Part_from_uri ''files/a'' ''image/png'', Part_from_uri ''files/b'' ''image/png'',
                 Part_from_text ''hint'']\<rparr>]]"
    by (simp add: run_hint_eval hint_request_def)
  have e2: "map req_contents (requests (trace (snd (snd run_budget)))) =
     [[\<lparr>role = ''user'',
        parts = [Part_from_uri ''files/a'' ''image/png'',
                 Part_from_uri ''files/b'' ''image/png'']\<rparr>]]"
    by (simp add: run_budget_body) (simp add: run_defs)
  from e1 e2 auxiliary_text_part [OF p] show ?thesis by (intro conjI)
qed

end
